theory Spec2Isabelle
  imports
    Main
    "HOL-Library.Word"
    "HOL-Library.Multiset"
    "HOL-Library.Char_ord"
    "HOL-Library.List_Lexorder"
    "HOL-Library.Product_Lexorder"
begin

section \<open>Hostname algebra (pilot/pkg/model)\<close>

text \<open>A Go \<^verbatim>\<open>Hostname\<close> is a string; Go compares strings bytewise, which is the
  lexicographic order on \<^typ>\<open>char list\<close>.\<close>

type_synonym Hostname = string

definition HasSuffix :: "string \<Rightarrow> string \<Rightarrow> bool" where
  \<comment> \<open>Go's \<^verbatim>\<open>strings.HasSuffix\<close>.\<close>
  "HasSuffix s suf = (length suf \<le> length s \<and> drop (length s - length suf) s = suf)"

definition Matches :: "Hostname \<Rightarrow> Hostname \<Rightarrow> bool" where
  \<comment> \<open>Modelled from the spec: \<^verbatim>\<open>Hostname.Matches\<close> is declared in the model package's
      service file, which is not among the sources. The data model gives it as: literal
      equality, or the receiver is \<^verbatim>\<open>*.x\<close> and the other name ends in \<^verbatim>\<open>.x\<close> or
      equals \<^verbatim>\<open>x\<close>.\<close>
  "Matches h other =
     (h = other \<or>
      (take 2 h = ''*.'' \<and> (HasSuffix other (drop 1 h) \<or> other = drop 2 h)))"

definition is_wildcard :: "Hostname \<Rightarrow> bool" where
  "is_wildcard h = (case h of [] \<Rightarrow> False | c # _ \<Rightarrow> c = CHR ''*'')"

definition Hostnames_Less :: "Hostname \<Rightarrow> Hostname \<Rightarrow> bool" where
  \<comment> \<open>Modelled from the spec: the \<^verbatim>\<open>sort.Interface\<close> of \<^verbatim>\<open>Hostnames\<close> is not among
      the sources. The spec orders by specificity: literal before wildcard, then longer
      before shorter, then lexicographically.\<close>
  "Hostnames_Less a b =
     (if is_wildcard a \<noteq> is_wildcard b then \<not> is_wildcard a
      else if length a \<noteq> length b then length b < length a
      else a < b)"

definition specificity :: "Hostname \<Rightarrow> bool \<times> int \<times> string" where
  \<comment> \<open>The sort key whose lexicographic order is \<^const>\<open>Hostnames_Less\<close>.\<close>
  "specificity h = (is_wildcard h, - int (length h), h)"

definition sort_Hostnames :: "Hostname list \<Rightarrow> Hostname list" where
  \<comment> \<open>\<^verbatim>\<open>sort.Sort(Hostnames(stack))\<close>: the order is total and equal keys are equal
      strings, so every correct sort yields this list.\<close>
  "sort_Hostnames stack = sort_key specificity stack"

fun first_match :: "Hostname \<Rightarrow> Hostname list \<Rightarrow> Hostname \<times> bool" where
  "first_match needle [] = ('''', False)"
| "first_match needle (h # hs) =
     (if Matches needle h then (h, True) else first_match needle hs)"

definition MostSpecificHostMatch ::
  "Hostname \<Rightarrow> Hostname list \<Rightarrow> Hostname list \<times> (Hostname \<times> bool)" where
  \<comment> \<open>The first component is the caller's slice after the call (it is sorted in place),
      the second the returned pair.\<close>
  "MostSpecificHostMatch needle stack =
     (let stack' = sort_Hostnames stack in (stack', first_match needle stack'))"


section \<open>Labels, services and configuration objects (pilot/pkg/model)\<close>

text \<open>A Go \<^verbatim>\<open>map[string]string\<close> of labels is an association list with distinct keys.\<close>

type_synonym Labels = "(string \<times> string) list"
type_synonym LabelsCollection = "Labels list"

definition SubsetOf :: "Labels \<Rightarrow> Labels \<Rightarrow> bool" where
  \<comment> \<open>Modelled from the spec: \<^verbatim>\<open>Labels.SubsetOf\<close> is not among the sources; the spec calls it
      the pointwise inclusion test.\<close>
  "SubsetOf l other = list_all (\<lambda>(k, v). map_of other k = Some v) l"

definition IsSupersetOf :: "LabelsCollection \<Rightarrow> Labels \<Rightarrow> bool" where
  \<comment> \<open>Modelled from the spec: \<^verbatim>\<open>LabelsCollection.IsSupersetOf\<close> is not among the sources; the
      spec has it true iff some labels map in the collection contains every key/value of the
      selector.\<close>
  "IsSupersetOf labels selector = list_ex (\<lambda>l. SubsetOf selector l) labels"

datatype Protocol =
  ProtocolGRPC | ProtocolHTTPS | ProtocolHTTP2 | ProtocolHTTP | ProtocolTCP | ProtocolUDP
  | ProtocolMongo | ProtocolRedis | ProtocolUnsupported

definition IsHTTP :: "Protocol \<Rightarrow> bool" where
  \<comment> \<open>Modelled from the spec: \<^verbatim>\<open>Protocol.IsHTTP\<close> is not among the sources; the spec speaks of
      HTTP-compatible ports, which are plain HTTP, HTTP/2 and gRPC.\<close>
  "IsHTTP p = (p = ProtocolHTTP \<or> p = ProtocolHTTP2 \<or> p = ProtocolGRPC)"

record Port =
  Port_Name :: string
  Port_Port :: int
  Port_Protocol :: Protocol

type_synonym PortList = "Port list"

definition Get :: "PortList \<Rightarrow> string \<Rightarrow> Port option" where
  \<comment> \<open>Modelled from the spec: \<^verbatim>\<open>PortList.Get\<close> (lookup by name) is not among the sources.\<close>
  "Get ports name = find (\<lambda>p. Port_Name p = name) ports"

definition GetByPort :: "PortList \<Rightarrow> int \<Rightarrow> Port option" where
  \<comment> \<open>Modelled from the spec: \<^verbatim>\<open>PortList.GetByPort\<close> (lookup by number) is not among the
      sources.\<close>
  "GetByPort ports num = find (\<lambda>p. Port_Port p = num) ports"

record Service =
  Service_Hostname :: string
  Service_Ports :: PortList

text \<open>The service index is a Go \<^verbatim>\<open>map[string]*Service\<close>. It is both looked up and ranged
  over, so it is an association list with distinct keys: lookup is \<^const>\<open>map_of\<close>, and the
  list order stands for the (unspecified) iteration order of one run.\<close>

type_synonym ServiceIndex = "(string \<times> Service) list"

definition TrafficDirectionOutbound :: string where
  "TrafficDirectionOutbound = ''outbound''"

definition BuildSubsetKey :: "string \<Rightarrow> string \<Rightarrow> string \<Rightarrow> Port \<Rightarrow> string" where
  \<comment> \<open>Modelled from the spec: \<^verbatim>\<open>model.BuildSubsetKey\<close> is not among the sources; the spec
      composes the key as \<^verbatim>\<open>direction|subset|host|port\<close>, the port given by its name.\<close>
  "BuildSubsetKey direction subsetName hostname port =
     direction @ ''|'' @ subsetName @ ''|'' @ hostname @ ''|'' @ Port_Name port"

definition BlackHoleCluster :: string where
  \<comment> \<open>Modelled from the spec: \<^verbatim>\<open>util.BlackHoleCluster\<close> is not among the sources; it is the
      well-known name of the cluster that drops requests.\<close>
  "BlackHoleCluster = ''BlackHoleCluster''"

record ConfigMeta =
  Meta_Type :: string
  Meta_Group :: string
  Meta_Version :: string
  Meta_Name :: string
  Meta_Namespace :: string
  Meta_Domain :: string
  Meta_ResourceVersion :: string

definition Key3 :: "string \<Rightarrow> string \<Rightarrow> string \<Rightarrow> string" where
  \<comment> \<open>The package-level function \<^verbatim>\<open>Key(typ, name, namespace)\<close>.\<close>
  "Key3 typ name namespace = typ @ ''/'' @ namespace @ ''/'' @ name"

definition Key :: "ConfigMeta \<Rightarrow> string" where
  "Key meta = Key3 (Meta_Type meta) (Meta_Name meta) (Meta_Namespace meta)"

subsection \<open>The networking API messages read by the route compiler\<close>

datatype PortSelector =
  PortSelector_unset | PortSelector_Name string | PortSelector_Number "32 word"

record Destination =
  Destination_Host :: string
  Destination_Subset :: string
  Destination_Port :: "PortSelector option"

record DestinationWeight =
  DW_Destination :: Destination
  DW_Weight :: "32 word"  \<comment> \<open>an \<^verbatim>\<open>int32\<close>\<close>

datatype StringMatch =
  StringMatch_unset | StringMatch_Exact string | StringMatch_Prefix string
  | StringMatch_Regex string

record HTTPMatchRequest =
  Match_Uri :: "StringMatch option"
  Match_Scheme :: "StringMatch option"
  Match_Method :: "StringMatch option"
  Match_Authority :: "StringMatch option"
  Match_Headers :: "(string \<times> StringMatch) list"
  Match_Port :: "32 word"  \<comment> \<open>a \<^verbatim>\<open>uint32\<close>\<close>
  Match_SourceLabels :: Labels
  Match_Gateways :: "string list"

record GogoDuration =
  Duration_Seconds :: int
  Duration_Nanos :: int

record HTTPRedirect =
  Redirect_Uri :: string
  Redirect_Authority :: string

record HTTPRewrite =
  Rewrite_Uri :: string
  Rewrite_Authority :: string

record HTTPRetry =
  Retry_Attempts :: "32 word"  \<comment> \<open>an \<^verbatim>\<open>int32\<close>\<close>
  Retry_PerTryTimeout :: "GogoDuration option"

record CorsPolicy =
  Cors_AllowOrigin :: "string list"
  Cors_AllowMethods :: "string list"
  Cors_AllowHeaders :: "string list"
  Cors_ExposeHeaders :: "string list"
  Cors_MaxAge :: "GogoDuration option"
  Cors_AllowCredentials :: "bool option"

record HTTPRoute =
  HTTP_Match :: "HTTPMatchRequest list"
  HTTP_Route :: "DestinationWeight list"
  HTTP_Redirect :: "HTTPRedirect option"
  HTTP_Rewrite :: "HTTPRewrite option"
  HTTP_WebsocketUpgrade :: bool
  HTTP_Timeout :: "GogoDuration option"
  HTTP_Retries :: "HTTPRetry option"
  HTTP_Mirror :: "Destination option"
  HTTP_CorsPolicy :: "CorsPolicy option"
  HTTP_AppendHeaders :: "(string \<times> string) list"

record L4MatchAttributes =
  L4_Gateways :: "string list"

record TCPRoute =
  TCP_Match :: "L4MatchAttributes list"
  TCP_Route :: "DestinationWeight list"

record VirtualService =
  VS_Hosts :: "string list"
  VS_Gateways :: "string list"
  VS_Http :: "HTTPRoute list"
  VS_Tcp :: "TCPRoute list"

record TargetSelector =
  Target_Name :: string
  Target_Ports :: "PortSelector list"

record Policy =
  Policy_Targets :: "TargetSelector list"

text \<open>\<^verbatim>\<open>Config.Spec\<close> is a \<^verbatim>\<open>proto.Message\<close>; the type assertions of the source distinguish the
  message types below.\<close>

datatype Spec =
  Spec_VirtualService VirtualService
  | Spec_Policy Policy
  | Spec_Other string

text \<open>A config is its metadata and its spec. Functions that only read the spec take it by value
  (\<open>'s = Spec\<close>); the store query that writes through the spec pointer takes a reference.\<close>

record 's Config =
  Config_Meta :: ConfigMeta
  Config_Spec :: 's

datatype error =
  NotAVirtualService
  | NoRoutesMatched
  | TypeAssertionPanic
  | ListError string
  | BadServiceNode string
  | PushError string

subsection \<open>The proxy API messages written by the route compiler\<close>

datatype PathSpecifier =
  RouteMatch_Prefix string | RouteMatch_Path string | RouteMatch_Regex string

record HeaderMatcher =
  HM_Name :: string
  HM_Value :: string
  HM_Regex :: "bool option"

record RouteMatch =
  RM_PathSpecifier :: PathSpecifier
  RM_Headers :: "HeaderMatcher list"

record ClusterWeight =
  CW_Name :: string
  CW_Weight :: "32 word"  \<comment> \<open>a \<^verbatim>\<open>uint32\<close>\<close>

datatype ClusterSpecifier =
  RouteAction_Cluster string
  | RouteAction_WeightedClusters "ClusterWeight list"

record RouteCorsPolicy =
  RCors_AllowOrigin :: "string list"
  RCors_Enabled :: "bool option"
  RCors_AllowCredentials :: "bool option"
  RCors_AllowHeaders :: string
  RCors_AllowMethods :: string
  RCors_ExposeHeaders :: string
  RCors_MaxAge :: "GogoDuration option"
    \<comment> \<open>the source stores the text of the duration; the model keeps the duration\<close>

text \<open>A Go \<^verbatim>\<open>time.Duration\<close> is a number of nanoseconds.\<close>

type_synonym Duration = int

record RetryPolicy =
  Retry_NumRetries :: "32 word"
  Retry_RetryOn :: string
  Retry_Timeout :: "Duration option"
    \<comment> \<open>a pointer; the route compiler always sets it\<close>

record RouteAction =
  RA_Cors :: "RouteCorsPolicy option"
  RA_RetryPolicy :: "RetryPolicy option"
  RA_UseWebsocket :: "bool option"
  RA_Timeout :: "Duration option"
  RA_PrefixRewrite :: string
  RA_HostRewrite :: "string option"
  RA_RequestHeadersToAdd :: "(string \<times> string) list"
  RA_RequestMirrorPolicy :: "string option"
  RA_ClusterSpecifier :: "ClusterSpecifier option"

datatype Action =
  Route_Redirect string string  \<comment> \<open>host redirect, path redirect\<close>
  | Route_Route RouteAction

record Route =
  Route_Match :: RouteMatch
  Route_Decorator :: string
  Route_Action :: Action

record GuardedHost =
  GH_Port :: int
  GH_Services :: "Service list"
  GH_Hosts :: "string list"
  GH_Routes :: "Route list"

section \<open>The route compiler (pilot/pkg/networking/core/v1alpha3/route)\<close>

definition HeaderMethod :: string where "HeaderMethod = '':method''"
definition HeaderAuthority :: string where "HeaderAuthority = '':authority''"
definition HeaderScheme :: string where "HeaderScheme = '':scheme''"
definition DefaultRoute :: string where "DefaultRoute = ''default-route''"

definition QuoteMeta :: "string \<Rightarrow> string" where
  \<comment> \<open>Go's \<^verbatim>\<open>regexp.QuoteMeta\<close>: a backslash before every regular-expression metacharacter.\<close>
  "QuoteMeta s =
     concat (map (\<lambda>c. if c \<in> set (CHR 0x5C # ''.+*?()|[]{}^$'') then [CHR 0x5C, c] else [c]) s)"

fun Join :: "string list \<Rightarrow> string \<Rightarrow> string" where
  \<comment> \<open>Go's \<^verbatim>\<open>strings.Join\<close>.\<close>
  "Join [] sep = ''''"
| "Join [x] sep = x"
| "Join (x # y # ys) sep = x @ sep @ Join (y # ys) sep"

definition translateHeaderMatch :: "string \<Rightarrow> StringMatch \<Rightarrow> HeaderMatcher" where
  "translateHeaderMatch name in' =
     (case in' of
        StringMatch_Exact e \<Rightarrow> \<lparr>HM_Name = name, HM_Value = e, HM_Regex = None\<rparr>
      | StringMatch_Prefix p \<Rightarrow>
          \<lparr>HM_Name = name, HM_Value = ''^'' @ QuoteMeta p @ ''.*'', HM_Regex = Some True\<rparr>
      | StringMatch_Regex r \<Rightarrow> \<lparr>HM_Name = name, HM_Value = r, HM_Regex = Some True\<rparr>
      | StringMatch_unset \<Rightarrow> \<lparr>HM_Name = name, HM_Value = '''', HM_Regex = None\<rparr>)"

definition optional_header :: "string \<Rightarrow> StringMatch option \<Rightarrow> HeaderMatcher list" where
  "optional_header name m = (case m of None \<Rightarrow> [] | Some sm \<Rightarrow> [translateHeaderMatch name sm])"

definition translateRouteMatch :: "HTTPMatchRequest option \<Rightarrow> RouteMatch" where
  \<comment> \<open>The headers of the match are ranged over and then sorted by name and value; names are the
      keys of a Go map, so the order is total and the sorted list is determined.\<close>
  "translateRouteMatch in' =
     (case in' of
        None \<Rightarrow> \<lparr>RM_PathSpecifier = RouteMatch_Prefix ''/'', RM_Headers = []\<rparr>
      | Some m \<Rightarrow>
          (let headers = sort_key (\<lambda>h. (HM_Name h, HM_Value h))
                           (map (\<lambda>(name, sm). translateHeaderMatch name sm) (Match_Headers m));
               path = (case Match_Uri m of
                         Some (StringMatch_Exact e) \<Rightarrow> RouteMatch_Path e
                       | Some (StringMatch_Prefix p) \<Rightarrow> RouteMatch_Prefix p
                       | Some (StringMatch_Regex r) \<Rightarrow> RouteMatch_Regex r
                       | _ \<Rightarrow> RouteMatch_Prefix ''/'')
           in \<lparr>RM_PathSpecifier = path,
               RM_Headers = headers
                 @ optional_header HeaderMethod (Match_Method m)
                 @ optional_header HeaderAuthority (Match_Authority m)
                 @ optional_header HeaderScheme (Match_Scheme m)\<rparr>))"

definition GogoDurationToDuration :: "GogoDuration option \<Rightarrow> Duration" where
  \<comment> \<open>Modelled from the spec: \<^verbatim>\<open>util.GogoDurationToDuration\<close> is not among the sources. The spec
      carries the timeouts of a rule over to the route; the conversion is the duration in
      nanoseconds, and a missing duration is the zero duration.\<close>
  "GogoDurationToDuration d =
     (case d of
        None \<Rightarrow> 0
      | Some g \<Rightarrow> Duration_Seconds g * 1000000000 + Duration_Nanos g)"

definition translateRetryPolicy :: "HTTPRetry option \<Rightarrow> RetryPolicy option" where
  "translateRetryPolicy in' =
     (case in' of
        None \<Rightarrow> None
      | Some r \<Rightarrow>
          if 0 <s Retry_Attempts r
          then Some \<lparr>Retry_NumRetries = Retry_Attempts r,
                     Retry_RetryOn = ''5xx,connect-failure,refused-stream'',
                     Retry_Timeout = Some (GogoDurationToDuration (Retry_PerTryTimeout r))\<rparr>
          else None)"

definition translateCORSPolicy :: "CorsPolicy option \<Rightarrow> RouteCorsPolicy option" where
  "translateCORSPolicy in' =
     (case in' of
        None \<Rightarrow> None
      | Some c \<Rightarrow>
          Some \<lparr>RCors_AllowOrigin = Cors_AllowOrigin c,
                RCors_Enabled = Some True,
                RCors_AllowCredentials = Cors_AllowCredentials c,
                RCors_AllowHeaders = Join (Cors_AllowHeaders c) '','',
                RCors_AllowMethods = Join (Cors_AllowMethods c) '','',
                RCors_ExposeHeaders = Join (Cors_ExposeHeaders c) '','',
                RCors_MaxAge = Cors_MaxAge c\<rparr>)"

definition BuildDefaultHTTPRoute :: "string \<Rightarrow> Route" where
  "BuildDefaultHTTPRoute clusterName =
     \<lparr>Route_Match = translateRouteMatch None,
      Route_Decorator = DefaultRoute,
      Route_Action = Route_Route
        \<lparr>RA_Cors = None, RA_RetryPolicy = None, RA_UseWebsocket = None, RA_Timeout = None,
         RA_PrefixRewrite = '''', RA_HostRewrite = None, RA_RequestHeadersToAdd = [],
         RA_RequestMirrorPolicy = None,
         RA_ClusterSpecifier = Some (RouteAction_Cluster clusterName)\<rparr>\<rparr>"

definition ConvertDestinationToCluster ::
  "Destination \<Rightarrow> string \<Rightarrow> HTTPRoute \<Rightarrow> ServiceIndex \<Rightarrow> int \<Rightarrow> string" where
  \<comment> \<open>The rule name and the route are only logged and counted in metrics, which the model
      leaves out.\<close>
  "ConvertDestinationToCluster destination vsvcName in' serviceIndex defaultPort =
     (case map_of serviceIndex (Destination_Host destination) of
        None \<Rightarrow> BlackHoleCluster
      | Some svc \<Rightarrow>
          (let svcPort =
                 (case Destination_Port destination of
                    Some (PortSelector_Name name) \<Rightarrow> Get (Service_Ports svc) name
                  | Some (PortSelector_Number number) \<Rightarrow>
                      GetByPort (Service_Ports svc) (uint number)
                  | _ \<Rightarrow> GetByPort (Service_Ports svc) defaultPort)
           in case svcPort of
                None \<Rightarrow> BlackHoleCluster
              | Some p \<Rightarrow>
                  BuildSubsetKey TrafficDirectionOutbound (Destination_Subset destination)
                    (Service_Hostname svc) p))"

definition sourceMatchHTTP ::
  "HTTPMatchRequest option \<Rightarrow> LabelsCollection \<Rightarrow> (string \<Rightarrow> bool) \<Rightarrow> bool" where
  \<comment> \<open>\<^verbatim>\<open>gatewayNames\<close> is a \<^verbatim>\<open>map[string]bool\<close>: a missing key reads as false.\<close>
  "sourceMatchHTTP match proxyLabels gatewayNames =
     (case match of
        None \<Rightarrow> True
      | Some m \<Rightarrow>
          if 0 < length (Match_Gateways m)
          then list_ex gatewayNames (Match_Gateways m)
          else IsSupersetOf proxyLabels (Match_SourceLabels m))"

definition weightedCluster ::
  "HTTPRoute \<Rightarrow> string \<Rightarrow> ServiceIndex \<Rightarrow> int \<Rightarrow> DestinationWeight \<Rightarrow> ClusterWeight" where
  \<comment> \<open>The body of the loop over \<^verbatim>\<open>in.Route\<close>.\<close>
  "weightedCluster in' operation serviceIndex port dst =
     \<lparr>CW_Name = ConvertDestinationToCluster (DW_Destination dst) operation in' serviceIndex port,
      CW_Weight = (if DW_Weight dst = 0 then 100 else DW_Weight dst)\<rparr>"

definition translateRoute ::
  "HTTPRoute \<Rightarrow> HTTPMatchRequest option \<Rightarrow> int \<Rightarrow> string \<Rightarrow> ServiceIndex \<Rightarrow>
   LabelsCollection \<Rightarrow> (string \<Rightarrow> bool) \<Rightarrow> Route option" where
  "translateRoute in' match port operation serviceIndex proxyLabels gatewayNames =
     (if \<not> sourceMatchHTTP match proxyLabels gatewayNames then None
      else if (case match of
                 None \<Rightarrow> False
               | Some m \<Rightarrow> Match_Port m \<noteq> 0 \<and> Match_Port m \<noteq> word_of_int port)
      then None
      else Some
        \<lparr>Route_Match = translateRouteMatch match,
         Route_Decorator = operation,
         Route_Action =
           (case HTTP_Redirect in' of
              Some redirect \<Rightarrow> Route_Redirect (Redirect_Authority redirect) (Redirect_Uri redirect)
            | None \<Rightarrow>
                (let weighted = map (weightedCluster in' operation serviceIndex port) (HTTP_Route in')
                 in Route_Route
                   \<lparr>RA_Cors = translateCORSPolicy (HTTP_CorsPolicy in'),
                    RA_RetryPolicy = translateRetryPolicy (HTTP_Retries in'),
                    RA_UseWebsocket = Some (HTTP_WebsocketUpgrade in'),
                    RA_Timeout =
                      map_option (\<lambda>t. GogoDurationToDuration (Some t)) (HTTP_Timeout in'),
                    RA_PrefixRewrite =
                      (case HTTP_Rewrite in' of None \<Rightarrow> '''' | Some rw \<Rightarrow> Rewrite_Uri rw),
                    RA_HostRewrite = map_option Rewrite_Authority (HTTP_Rewrite in'),
                    RA_RequestHeadersToAdd = HTTP_AppendHeaders in',
                    RA_RequestMirrorPolicy =
                      map_option (\<lambda>m. ConvertDestinationToCluster m operation in' serviceIndex port)
                        (HTTP_Mirror in'),
                    RA_ClusterSpecifier =
                      Some (if length weighted = 1
                            then RouteAction_Cluster (CW_Name (hd weighted))
                            else RouteAction_WeightedClusters weighted)\<rparr>))\<rparr>)"

text \<open>The loop of \<^verbatim>\<open>TranslateRoutes\<close> over the HTTP rules: a rule without match clauses is
  translated with a nil match and ends the loop; otherwise every match clause is tried.\<close>

fun routes_of_rules ::
  "HTTPRoute list \<Rightarrow> int \<Rightarrow> string \<Rightarrow> ServiceIndex \<Rightarrow> LabelsCollection \<Rightarrow>
   (string \<Rightarrow> bool) \<Rightarrow> Route list" where
  "routes_of_rules [] port operation serviceIndex proxyLabels gatewayNames = []"
| "routes_of_rules (http # rest) port operation serviceIndex proxyLabels gatewayNames =
     (if length (HTTP_Match http) = 0
      then (case translateRoute http None port operation serviceIndex proxyLabels gatewayNames of
              Some r \<Rightarrow> [r] | None \<Rightarrow> [])
      else List.map_filter
             (\<lambda>match. translateRoute http (Some match) port operation serviceIndex proxyLabels
                gatewayNames)
             (HTTP_Match http)
           @ routes_of_rules rest port operation serviceIndex proxyLabels gatewayNames)"

definition TranslateRoutes ::
  "Spec Config \<Rightarrow> ServiceIndex \<Rightarrow> int \<Rightarrow> LabelsCollection \<Rightarrow> (string \<Rightarrow> bool) \<Rightarrow>
   error + Route list" where
  "TranslateRoutes virtualService serviceIndex port proxyLabels gatewayNames =
     (case Config_Spec virtualService of
        Spec_VirtualService rule \<Rightarrow>
          (let out = routes_of_rules (VS_Http rule) port
                       (Meta_Name (Config_Meta virtualService)) serviceIndex proxyLabels
                       gatewayNames
           in if length out = 0 then Inl NoRoutesMatched else Inr out)
      | _ \<Rightarrow> Inl NotAVirtualService)"

definition matchServiceHosts ::
  "Spec Config \<Rightarrow> ServiceIndex \<Rightarrow> error + (string list \<times> Service list)" where
  \<comment> \<open>The unchecked type assertion panics on any other spec.\<close>
  "matchServiceHosts in' serviceIndex =
     (case Config_Spec in' of
        Spec_VirtualService rule \<Rightarrow>
          Inr (filter (\<lambda>host. map_of serviceIndex host = None) (VS_Hosts rule),
               List.map_filter (map_of serviceIndex) (VS_Hosts rule))
      | _ \<Rightarrow> Inl TypeAssertionPanic)"

text \<open>\<^verbatim>\<open>serviceByPort\<close> is a \<^verbatim>\<open>map[int][]*Service\<close> that is ranged over; the association list
  keeps the keys in the order of their first insertion.\<close>

fun appendByPort :: "int \<Rightarrow> Service \<Rightarrow> (int \<times> Service list) list \<Rightarrow> (int \<times> Service list) list" where
  "appendByPort port svc [] = [(port, [svc])]"
| "appendByPort port svc ((p, svcs) # rest) =
     (if p = port then (p, svcs @ [svc]) # rest else (p, svcs) # appendByPort port svc rest)"

definition groupByPort :: "Service list \<Rightarrow> (int \<times> Service list) list" where
  "groupByPort services =
     foldl (\<lambda>m svc. foldl (\<lambda>m port. if IsHTTP (Port_Protocol port)
                                      then appendByPort (Port_Port port) svc m else m)
                       m (Service_Ports svc))
       [] services"

definition zeroGuardedHost :: GuardedHost where
  \<comment> \<open>The zero value of the struct.\<close>
  "zeroGuardedHost = \<lparr>GH_Port = 0, GH_Services = [], GH_Hosts = [], GH_Routes = []\<rparr>"

definition translateVirtualHost ::
  "Spec Config \<Rightarrow> ServiceIndex \<Rightarrow> LabelsCollection \<Rightarrow> (string \<Rightarrow> bool) \<Rightarrow>
   error + GuardedHost list" where
  \<comment> \<open>\<^verbatim>\<open>make([]GuardedHost, len(serviceByPort))\<close> allocates that many zero values, and the loop
      appends after them.\<close>
  "translateVirtualHost in' serviceIndex proxyLabels gatewayName =
     (case matchServiceHosts in' serviceIndex of
        Inl e \<Rightarrow> Inl e
      | Inr (hosts, services) \<Rightarrow>
          (let grouped = groupByPort services;
               serviceByPort = (if length grouped = 0 then [(80, [])] else grouped)
           in Inr (replicate (length serviceByPort) zeroGuardedHost
                   @ List.map_filter
                       (\<lambda>(port, portServices).
                          case TranslateRoutes in' serviceIndex port proxyLabels gatewayName of
                            Inl err \<Rightarrow> None
                          | Inr routes \<Rightarrow>
                              if length routes = 0 then None
                              else Some \<lparr>GH_Port = port, GH_Services = portServices,
                                         GH_Hosts = hosts, GH_Routes = routes\<rparr>)
                       serviceByPort)))"

fun translateAll ::
  "Spec Config list \<Rightarrow> ServiceIndex \<Rightarrow> LabelsCollection \<Rightarrow> (string \<Rightarrow> bool) \<Rightarrow>
   error + GuardedHost list" where
  "translateAll [] services proxyLabels gatewayNames = Inr []"
| "translateAll (config # rest) services proxyLabels gatewayNames =
     (case translateVirtualHost config services proxyLabels gatewayNames of
        Inl e \<Rightarrow> Inl e
      | Inr hosts \<Rightarrow>
          (case translateAll rest services proxyLabels gatewayNames of
             Inl e \<Rightarrow> Inl e
           | Inr others \<Rightarrow> Inr (hosts @ others)))"

definition defaultHosts :: "Service \<Rightarrow> GuardedHost list" where
  "defaultHosts svc =
     map (\<lambda>port.
            \<lparr>GH_Port = Port_Port port, GH_Services = [svc], GH_Hosts = [],
             GH_Routes = [BuildDefaultHTTPRoute
                            (BuildSubsetKey TrafficDirectionOutbound '''' (Service_Hostname svc) port)]\<rparr>)
       (filter (\<lambda>port. IsHTTP (Port_Protocol port)) (Service_Ports svc))"

definition TranslateVirtualHosts ::
  "Spec Config list \<Rightarrow> ServiceIndex \<Rightarrow> LabelsCollection \<Rightarrow> (string \<Rightarrow> bool) \<Rightarrow>
   error + GuardedHost list" where
  "TranslateVirtualHosts serviceConfigs services proxyLabels gatewayNames =
     (case translateAll serviceConfigs services proxyLabels gatewayNames of
        Inl e \<Rightarrow> Inl e
      | Inr out \<Rightarrow>
          (let covered = concat (map (\<lambda>host. map Service_Hostname (GH_Services host)) out);
               missing = filter (\<lambda>fqdn. fqdn \<notin> set covered) (map fst services)
           in Inr (out @ concat (map (\<lambda>fqdn. case map_of services fqdn of
                                                 None \<Rightarrow> []
                                               | Some svc \<Rightarrow> defaultHosts svc)
                                    missing))))"

section \<open>Example inputs\<close>

definition emptyRule :: HTTPRoute where
  \<comment> \<open>The zero value of \<^verbatim>\<open>HTTPRoute\<close>.\<close>
  "emptyRule =
     \<lparr>HTTP_Match = [], HTTP_Route = [], HTTP_Redirect = None, HTTP_Rewrite = None,
      HTTP_WebsocketUpgrade = False, HTTP_Timeout = None, HTTP_Retries = None,
      HTTP_Mirror = None, HTTP_CorsPolicy = None, HTTP_AppendHeaders = []\<rparr>"

definition emptyMatch :: HTTPMatchRequest where
  \<comment> \<open>The zero value of \<^verbatim>\<open>HTTPMatchRequest\<close>.\<close>
  "emptyMatch =
     \<lparr>Match_Uri = None, Match_Scheme = None, Match_Method = None, Match_Authority = None,
      Match_Headers = [], Match_Port = 0, Match_SourceLabels = [], Match_Gateways = []\<rparr>"

definition destinationTo :: "string \<Rightarrow> 32 word \<Rightarrow> DestinationWeight" where
  "destinationTo host weight =
     \<lparr>DW_Destination = \<lparr>Destination_Host = host, Destination_Subset = '''',
                          Destination_Port = None\<rparr>,
      DW_Weight = weight\<rparr>"

definition metaOf :: "string \<Rightarrow> string \<Rightarrow> string \<Rightarrow> ConfigMeta" where
  "metaOf typ name namespace =
     \<lparr>Meta_Type = typ, Meta_Group = '''', Meta_Version = '''', Meta_Name = name,
      Meta_Namespace = namespace, Meta_Domain = ''cluster.local'', Meta_ResourceVersion = ''''\<rparr>"

definition reviewsConfig :: "Spec Config" where
  \<comment> \<open>A virtual service for one host with one rule that has no match clause and one
      destination.\<close>
  "reviewsConfig =
     \<lparr>Config_Meta = metaOf ''virtual-service'' ''reviews'' ''default'',
      Config_Spec = Spec_VirtualService
        \<lparr>VS_Hosts = [''reviews.example.com''], VS_Gateways = [],
         VS_Http = [emptyRule\<lparr>HTTP_Route := [destinationTo ''reviews.example.com'' 100]\<rparr>],
         VS_Tcp = []\<rparr>\<rparr>"

definition clusterSpecifierOf :: "Route option \<Rightarrow> ClusterSpecifier option" where
  \<comment> \<open>The cluster specifier of a translated route, if it has a route action.\<close>
  "clusterSpecifierOf r =
     (case r of
        Some route \<Rightarrow>
          (case Route_Action route of Route_Route a \<Rightarrow> RA_ClusterSpecifier a | _ \<Rightarrow> None)
      | None \<Rightarrow> None)"

definition preserves_relative_weights :: "DestinationWeight list \<Rightarrow> ClusterWeight list \<Rightarrow> bool" where
  \<comment> \<open>The spec's words "preserves relative weights": the emitted weights are in the same
      proportions as the declared ones. A declared weight is a signed \<^verbatim>\<open>int32\<close>, an emitted
      one an unsigned \<^verbatim>\<open>uint32\<close>.\<close>
  "preserves_relative_weights dsts cws =
     (length dsts = length cws \<and>
      list_all (\<lambda>(d1, c1). list_all (\<lambda>(d2, c2).
          sint (DW_Weight d1) * uint (CW_Weight c2) = sint (DW_Weight d2) * uint (CW_Weight c1))
        (zip dsts cws)) (zip dsts cws))"

subsection \<open>Auxiliary notions and inputs for the route compiler\<close>

definition pinnedPort :: "Destination \<Rightarrow> Service \<Rightarrow> int \<Rightarrow> Port option" where
  "pinnedPort d svc defaultPort =
     (case Destination_Port d of
        Some (PortSelector_Name name) \<Rightarrow> Get (Service_Ports svc) name
      | Some (PortSelector_Number number) \<Rightarrow> GetByPort (Service_Ports svc) (uint number)
      | _ \<Rightarrow> GetByPort (Service_Ports svc) defaultPort)"

definition productpage :: Service where
  "productpage =
     \<lparr>Service_Hostname = ''productpage.default.svc.cluster.local'',
      Service_Ports = [\<lparr>Port_Name = ''http'', Port_Port = 9080, Port_Protocol = ProtocolHTTP\<rparr>,
                       \<lparr>Port_Name = ''tcp-admin'', Port_Port = 9090, Port_Protocol = ProtocolTCP\<rparr>]\<rparr>"

definition twoRuleConfig :: "Spec Config" where
  "twoRuleConfig =
     \<lparr>Config_Meta = metaOf ''virtual-service'' ''reviews'' ''default'',
      Config_Spec = Spec_VirtualService
        \<lparr>VS_Hosts = [''reviews.example.com''], VS_Gateways = [],
         VS_Http =
           [emptyRule\<lparr>HTTP_Match := [emptyMatch\<lparr>Match_Port := 9080\<rparr>, emptyMatch\<lparr>Match_Port := 80\<rparr>],
                      HTTP_Redirect := Some \<lparr>Redirect_Uri = ''/v2'', Redirect_Authority = ''b''\<rparr>\<rparr>,
            emptyRule\<lparr>HTTP_Redirect := Some \<lparr>Redirect_Uri = ''/'', Redirect_Authority = ''c''\<rparr>\<rparr>,
            emptyRule\<lparr>HTTP_Redirect := Some \<lparr>Redirect_Uri = ''/'', Redirect_Authority = ''d''\<rparr>\<rparr>],
         VS_Tcp = []\<rparr>\<rparr>"

section \<open>The typed config store (pilot/pkg/model/config.go)\<close>

definition IstioMeshGateway :: string where "IstioMeshGateway = ''mesh''"
definition NamespaceAll :: string where "NamespaceAll = ''''"
definition VirtualService_Type :: string where "VirtualService_Type = ''virtual-service''"
definition AuthenticationPolicy_Type :: string where "AuthenticationPolicy_Type = ''policy''"

record IstioService =
  IS_Name :: string
  IS_Namespace :: string
  IS_Domain :: string
  IS_Service :: string

definition ResolveHostname :: "ConfigMeta \<Rightarrow> IstioService \<Rightarrow> Hostname" where
  "ResolveHostname meta svc =
     (if IS_Service svc \<noteq> '''' then IS_Service svc
      else
        (let out1 = (if IS_Namespace svc \<noteq> '''' then IS_Name svc @ ''.'' @ IS_Namespace svc
                     else if Meta_Namespace meta \<noteq> ''''
                     then IS_Name svc @ ''.'' @ Meta_Namespace meta
                     else IS_Name svc)
         in if IS_Domain svc \<noteq> '''' then out1 @ ''.'' @ IS_Domain svc
            else if Meta_Domain meta \<noteq> '''' then out1 @ ''.svc.'' @ Meta_Domain meta
            else out1))"

definition ResolveShortnameToFQDN :: "string \<Rightarrow> ConfigMeta \<Rightarrow> Hostname" where
  "ResolveShortnameToFQDN host meta =
     (if host = ''*'' then host
      else if CHR ''.'' \<notin> set host
      then (let out1 = (if Meta_Namespace meta \<noteq> '''' then host @ ''.'' @ Meta_Namespace meta
                        else host)
            in if Meta_Domain meta \<noteq> '''' then out1 @ ''.svc.'' @ Meta_Domain meta else out1)
      else host)"

fun Split :: "string \<Rightarrow> char \<Rightarrow> string list" where
  \<comment> \<open>Go's \<^verbatim>\<open>strings.Split\<close> for a one-character separator.\<close>
  "Split [] sep = [[]]"
| "Split (c # cs) sep =
     (if c = sep then [] # Split cs sep
      else (case Split cs sep of [] \<Rightarrow> [[c]] | p # ps \<Rightarrow> (c # p) # ps))"

text \<open>The untyped store is reached through its \<^verbatim>\<open>List(typ, namespace)\<close> method only; the
  store is that function.\<close>

type_synonym 's ConfigStore = "string \<Rightarrow> string \<Rightarrow> error + 's Config list"

subsection \<open>\<^verbatim>\<open>AuthenticationPolicyByDestination\<close>\<close>

text \<open>\<^verbatim>\<open>Port.Match\<close> is declared outside the sources and the spec does not describe it; it is
  a parameter \<open>portMatch\<close> of the model.\<close>

definition targetMatches ::
  "(Port \<Rightarrow> PortSelector \<Rightarrow> bool) \<Rightarrow> Hostname \<Rightarrow> Port \<Rightarrow> ConfigMeta \<Rightarrow> TargetSelector \<Rightarrow> bool" where
  \<comment> \<open>A target reaches \<^verbatim>\<open>matchLevel = 3\<close>: the hostname resolves to it, and its port selectors,
      if any, contain one that matches the port.\<close>
  "targetMatches portMatch hostname port meta dest =
     (hostname = ResolveHostname meta
                   \<lparr>IS_Name = Target_Name dest, IS_Namespace = '''', IS_Domain = '''',
                    IS_Service = ''''\<rparr>
      \<and> (if 0 < length (Target_Ports dest) then list_ex (portMatch port) (Target_Ports dest)
         else True))"

definition matchLevel ::
  "(Port \<Rightarrow> PortSelector \<Rightarrow> bool) \<Rightarrow> Hostname \<Rightarrow> Port \<Rightarrow> ConfigMeta \<Rightarrow> Policy \<Rightarrow> int" where
  \<comment> \<open>0: no match; 2: namespace scope; 3: workload. Level 1 (global) is never assigned.\<close>
  "matchLevel portMatch hostname port meta policy =
     (if 0 < length (Policy_Targets policy)
      then (if list_ex (targetMatches portMatch hostname port meta) (Policy_Targets policy)
            then 3 else 0)
      else 2)"

fun policyLoop ::
  "(Port \<Rightarrow> PortSelector \<Rightarrow> bool) \<Rightarrow> Hostname \<Rightarrow> Port \<Rightarrow> Spec Config list \<Rightarrow>
   Spec Config \<times> int \<Rightarrow> error + (Spec Config \<times> int)" where
  \<comment> \<open>The loop over \<^verbatim>\<open>specs\<close> with its two variables \<^verbatim>\<open>out\<close> and
      \<^verbatim>\<open>currentMatchLevel\<close>; the unchecked type assertion panics on any other spec.\<close>
  "policyLoop portMatch hostname port [] acc = Inr acc"
| "policyLoop portMatch hostname port (spec # rest) (out, currentMatchLevel) =
     (case Config_Spec spec of
        Spec_Policy policy \<Rightarrow>
          (let level = matchLevel portMatch hostname port (Config_Meta spec) policy
           in if currentMatchLevel < level
              then policyLoop portMatch hostname port rest (spec, level)
              else policyLoop portMatch hostname port rest (out, currentMatchLevel))
      | _ \<Rightarrow> Inl TypeAssertionPanic)"

definition zeroConfig :: "Spec Config" where
  \<comment> \<open>The zero value of \<^verbatim>\<open>Config\<close>: empty metadata and a nil spec.\<close>
  "zeroConfig =
     \<lparr>Config_Meta = \<lparr>Meta_Type = '''', Meta_Group = '''', Meta_Version = '''', Meta_Name = '''',
                      Meta_Namespace = '''', Meta_Domain = '''', Meta_ResourceVersion = ''''\<rparr>,
      Config_Spec = Spec_Other ''''\<rparr>"

definition AuthenticationPolicyByDestination ::
  "(Port \<Rightarrow> PortSelector \<Rightarrow> bool) \<Rightarrow> Spec ConfigStore \<Rightarrow> Hostname \<Rightarrow> Port \<Rightarrow>
   error + Spec Config option" where
  \<comment> \<open>\<open>Inr None\<close> is the nil result, \<open>Inl\<close> a panic.\<close>
  "AuthenticationPolicyByDestination portMatch store hostname port =
     (let parts = Split hostname (CHR ''.'')
      in if length parts < 2 then Inr None
         else (case store AuthenticationPolicy_Type (parts ! 1) of
                 Inl err \<Rightarrow> Inr None
               | Inr specs \<Rightarrow>
                   (case policyLoop portMatch hostname port specs (zeroConfig, 0) of
                      Inl e \<Rightarrow> Inl e
                    | Inr (out, currentMatchLevel) \<Rightarrow>
                        if currentMatchLevel = 0 then Inr None else Inr (Some out))))"

definition levelOf ::
  "(Port \<Rightarrow> PortSelector \<Rightarrow> bool) \<Rightarrow> Hostname \<Rightarrow> Port \<Rightarrow> Spec Config \<Rightarrow> int" where
  \<comment> \<open>The scope tier of a stored policy for a destination.\<close>
  "levelOf portMatch hostname port spec =
     (case Config_Spec spec of
        Spec_Policy policy \<Rightarrow> matchLevel portMatch hostname port (Config_Meta spec) policy
      | _ \<Rightarrow> 0)"

definition isPolicy :: "Spec Config \<Rightarrow> bool" where
  "isPolicy spec = (case Config_Spec spec of Spec_Policy _ \<Rightarrow> True | _ \<Rightarrow> False)"

definition namespacePolicy :: "string \<Rightarrow> Spec Config" where
  \<comment> \<open>A policy without targets in the namespace \<^verbatim>\<open>default\<close>.\<close>
  "namespacePolicy name =
     \<lparr>Config_Meta = metaOf AuthenticationPolicy_Type name ''default'',
      Config_Spec = Spec_Policy \<lparr>Policy_Targets = []\<rparr>\<rparr>"

definition workloadPolicy :: "string \<Rightarrow> string \<Rightarrow> Spec Config" where
  \<comment> \<open>A policy with one target and no port selector in the namespace \<^verbatim>\<open>default\<close>.\<close>
  "workloadPolicy name target =
     \<lparr>Config_Meta = metaOf AuthenticationPolicy_Type name ''default'',
      Config_Spec = Spec_Policy
        \<lparr>Policy_Targets = [\<lparr>Target_Name = target, Target_Ports = []\<rparr>]\<rparr>\<rparr>"

definition httpPort :: Port where
  "httpPort = \<lparr>Port_Name = ''http'', Port_Port = 80, Port_Protocol = ProtocolHTTP\<rparr>"

subsection \<open>\<^verbatim>\<open>VirtualServices\<close>\<close>

text \<open>\<^verbatim>\<open>Config.Spec\<close> holds a pointer. \<^verbatim>\<open>VirtualServices\<close> writes through it, so here a config
  carries the address of its spec and the spec objects live in a store of objects. The
  configs that \<^verbatim>\<open>List\<close> returns are copies of the metadata with the same spec pointers.\<close>

type_synonym addr = nat
type_synonym heap = "addr \<Rightarrow> Spec option"

definition resolveGateway :: "ConfigMeta \<Rightarrow> string \<Rightarrow> string" where
  "resolveGateway meta g = (if g \<noteq> IstioMeshGateway then ResolveShortnameToFQDN g meta else g)"

definition resolveDestinationWeight :: "ConfigMeta \<Rightarrow> DestinationWeight \<Rightarrow> DestinationWeight" where
  "resolveDestinationWeight meta w =
     w\<lparr>DW_Destination := (DW_Destination w)
          \<lparr>Destination_Host := ResolveShortnameToFQDN (Destination_Host (DW_Destination w)) meta\<rparr>\<rparr>"

definition resolveHTTPRoute :: "ConfigMeta \<Rightarrow> HTTPRoute \<Rightarrow> HTTPRoute" where
  "resolveHTTPRoute meta d =
     d\<lparr>HTTP_Match := map (\<lambda>m. m\<lparr>Match_Gateways := map (resolveGateway meta) (Match_Gateways m)\<rparr>)
                       (HTTP_Match d),
       HTTP_Route := map (resolveDestinationWeight meta) (HTTP_Route d),
       HTTP_Mirror := map_option
                        (\<lambda>m. m\<lparr>Destination_Host := ResolveShortnameToFQDN (Destination_Host m) meta\<rparr>)
                        (HTTP_Mirror d)\<rparr>"

definition resolveTCPRoute :: "ConfigMeta \<Rightarrow> TCPRoute \<Rightarrow> TCPRoute" where
  "resolveTCPRoute meta d =
     d\<lparr>TCP_Match := map (\<lambda>m. m\<lparr>L4_Gateways := map (resolveGateway meta) (L4_Gateways m)\<rparr>)
                      (TCP_Match d),
       TCP_Route := map (resolveDestinationWeight meta) (TCP_Route d)\<rparr>"

definition resolveVirtualService :: "ConfigMeta \<Rightarrow> VirtualService \<Rightarrow> VirtualService" where
  \<comment> \<open>The body of the second loop: every assignment writes into the object behind
      \<^verbatim>\<open>r.Spec\<close>.\<close>
  "resolveVirtualService meta rule =
     \<lparr>VS_Hosts = map (\<lambda>h. ResolveShortnameToFQDN h meta) (VS_Hosts rule),
      VS_Gateways = map (resolveGateway meta) (VS_Gateways rule),
      VS_Http = map (resolveHTTPRoute meta) (VS_Http rule),
      VS_Tcp = map (resolveTCPRoute meta) (VS_Tcp rule)\<rparr>"

definition boundTo :: "(string \<Rightarrow> bool) \<Rightarrow> ConfigMeta \<Rightarrow> VirtualService \<Rightarrow> bool" where
  \<comment> \<open>The test of the first loop.\<close>
  "boundTo gateways meta rule =
     (if length (VS_Gateways rule) = 0 then gateways IstioMeshGateway
      else list_ex (\<lambda>g. gateways (ResolveShortnameToFQDN g meta)
                        \<or> (g = IstioMeshGateway \<and> gateways g)) (VS_Gateways rule))"

fun selectBound ::
  "heap \<Rightarrow> (string \<Rightarrow> bool) \<Rightarrow> addr Config list \<Rightarrow> error + addr Config list" where
  "selectBound h gateways [] = Inr []"
| "selectBound h gateways (config # rest) =
     (case h (Config_Spec config) of
        Some (Spec_VirtualService rule) \<Rightarrow>
          (case selectBound h gateways rest of
             Inl e \<Rightarrow> Inl e
           | Inr out \<Rightarrow>
               Inr (if boundTo gateways (Config_Meta config) rule then config # out else out))
      | _ \<Rightarrow> Inl TypeAssertionPanic)"

fun resolveAll :: "heap \<Rightarrow> addr Config list \<Rightarrow> error + heap" where
  "resolveAll h [] = Inr h"
| "resolveAll h (r # rest) =
     (case h (Config_Spec r) of
        Some (Spec_VirtualService rule) \<Rightarrow>
          resolveAll
            (h(Config_Spec r \<mapsto> Spec_VirtualService (resolveVirtualService (Config_Meta r) rule)))
            rest
      | _ \<Rightarrow> Inl TypeAssertionPanic)"

definition VirtualServices ::
  "addr ConfigStore \<Rightarrow> heap \<Rightarrow> (string \<Rightarrow> bool) \<Rightarrow> error + (addr Config list \<times> heap)" where
  \<comment> \<open>Returns the selected configs and the spec objects after the call. A failing
      \<^verbatim>\<open>List\<close> gives the nil slice.\<close>
  "VirtualServices store h gateways =
     (case store VirtualService_Type NamespaceAll of
        Inl err \<Rightarrow> Inr ([], h)
      | Inr configs \<Rightarrow>
          (case selectBound h gateways configs of
             Inl e \<Rightarrow> Inl e
           | Inr out \<Rightarrow>
               (case resolveAll h out of
                  Inl e \<Rightarrow> Inl e
                | Inr h' \<Rightarrow> Inr (out, h'))))"

definition storedReviews :: Spec where
  \<comment> \<open>A stored virtual service that names its host and its destination by short name.\<close>
  "storedReviews =
     Spec_VirtualService
       \<lparr>VS_Hosts = [''reviews''], VS_Gateways = [],
        VS_Http = [emptyRule\<lparr>HTTP_Route := [destinationTo ''reviews'' 100]\<rparr>],
        VS_Tcp = []\<rparr>"

definition reviewsStore :: "addr ConfigStore" where
  "reviewsStore typ namespace =
     (if typ = VirtualService_Type
      then Inr [\<lparr>Config_Meta = metaOf VirtualService_Type ''reviews'' ''default'', Config_Spec = 0\<rparr>]
      else Inr [])"

definition reviewsHeap :: heap where
  "reviewsHeap = Map.empty(0 \<mapsto> storedReviews)"

section \<open>The aggregated discovery stream (\<^verbatim>\<open>StreamAggregatedResources\<close>)\<close>

text \<open>The type URLs are constants of the discovery package declared outside the sources; they
  are the four resource type names of the proxy API.\<close>

definition ClusterType :: string where
  "ClusterType = ''type.googleapis.com/envoy.api.v2.Cluster''"
definition ListenerType :: string where
  "ListenerType = ''type.googleapis.com/envoy.api.v2.Listener''"
definition RouteType :: string where
  "RouteType = ''type.googleapis.com/envoy.api.v2.RouteConfiguration''"
definition EndpointType :: string where
  "EndpointType = ''type.googleapis.com/envoy.api.v2.ClusterLoadAssignment''"

record DiscoveryRequest =
  Req_NodeId :: string
  Req_TypeUrl :: string
  Req_ResourceNames :: "string list"
  Req_VersionInfo :: string
  Req_ResponseNonce :: string
  Req_ErrorDetail :: "string option"

record DiscoveryResponse =
  Resp_TypeUrl :: string
  Resp_VersionInfo :: string
  Resp_Nonce :: string
  Resp_Resources :: "string list"

record Proxy =
  Proxy_Type :: string
  Proxy_IPAddress :: string
  Proxy_ID :: string
  Proxy_Domain :: string

record XdsConnection =
  ConID :: string
  modelNode :: "Proxy option"
  RouteConfigs :: "string \<Rightarrow> string option"
  Clusters :: "string list"
  Routes :: "string list"
  LDSWatch :: bool
  CDSWatch :: bool
  added :: bool

text \<open>What the handler calls but the sources do not contain is a parameter of the model: the
  parser of node identifiers, the generator of connection identifiers, the three push
  functions other than \<^verbatim>\<open>pushRoute\<close> (each gives the responses it puts on the stream and
  whether it fails; none of them writes the watch fields of the connection), the registry
  lookup and route generator used by \<^verbatim>\<open>pushRoute\<close>, the
  version and nonce generators, and the transport's \<^verbatim>\<open>Send\<close>. Logging, metrics and the
  process-wide connection tables are left out.\<close>

record Env =
  ParseServiceNode :: "string \<Rightarrow> error + Proxy"
  connectionID :: "string \<Rightarrow> string"
  pushCds :: "XdsConnection \<Rightarrow> DiscoveryResponse list \<times> error option"
  pushLds :: "XdsConnection \<Rightarrow> DiscoveryResponse list \<times> error option"
  pushEds :: "XdsConnection \<Rightarrow> DiscoveryResponse list \<times> error option"
  GetProxyServiceInstances :: "Proxy option \<Rightarrow> error option"
  BuildSidecarOutboundHTTPRouteConfig :: "Proxy option \<Rightarrow> string \<Rightarrow> string"
  versionInfo :: string
  nonce :: string
  Send :: "DiscoveryResponse \<Rightarrow> error option"

datatype outcome = Continue | Return error

definition pushRoute ::
  "Env \<Rightarrow> XdsConnection \<Rightarrow> XdsConnection \<times> DiscoveryResponse list \<times> error option" where
  \<comment> \<open>The connection after the call, the responses handed to \<^verbatim>\<open>stream.Send\<close>, and the error
      returned.\<close>
  "pushRoute env con =
     (case GetProxyServiceInstances env (modelNode con) of
        Some err \<Rightarrow> (con, [], Some err)
      | None \<Rightarrow>
          (let rc = map (BuildSidecarOutboundHTTPRouteConfig env (modelNode con)) (Routes con);
               con' = con\<lparr>RouteConfigs :=
                            foldl (\<lambda>m routeName.
                                     m(routeName \<mapsto>
                                         BuildSidecarOutboundHTTPRouteConfig env (modelNode con)
                                           routeName))
                              (RouteConfigs con) (Routes con)\<rparr>;
               response = \<lparr>Resp_TypeUrl = RouteType, Resp_VersionInfo = versionInfo env,
                           Resp_Nonce = nonce env, Resp_Resources = rc\<rparr>
           in (con', [response], Send env response)))"

definition afterPush ::
  "XdsConnection \<Rightarrow> DiscoveryResponse list \<Rightarrow> error option \<Rightarrow>
   XdsConnection \<times> DiscoveryResponse list \<times> outcome" where
  \<comment> \<open>The end of a \<^verbatim>\<open>switch\<close> arm that pushed: a failed push returns from the handler, otherwise
      the connection is registered on its first pass.\<close>
  "afterPush con sent err =
     (case err of
        Some e \<Rightarrow> (con, sent, Return e)
      | None \<Rightarrow> (con\<lparr>added := True\<rparr>, sent, Continue))"

definition handleRequest ::
  "Env \<Rightarrow> XdsConnection \<Rightarrow> DiscoveryRequest \<Rightarrow>
   XdsConnection \<times> DiscoveryResponse list \<times> outcome" where
  \<comment> \<open>One pass of the loop for a request read from the stream: the connection afterwards, the
      responses put on the stream during the pass, and whether the loop goes on.\<close>
  "handleRequest env con discReq =
     (if Req_NodeId discReq = '''' then (con, [], Continue)
      else
        case ParseServiceNode env (Req_NodeId discReq) of
          Inl err \<Rightarrow> (con, [], Return err)
        | Inr nt \<Rightarrow>
            (let con1 = con\<lparr>modelNode := Some nt,
                            ConID := (if ConID con = '''' then connectionID env (Req_NodeId discReq)
                                      else ConID con)\<rparr>
             in if Req_TypeUrl discReq = ClusterType then
                  (if CDSWatch con1 then (con1, [], Continue)
                   else (let con2 = con1\<lparr>CDSWatch := True\<rparr>;
                             (sent, err) = pushCds env con2
                         in afterPush con2 sent err))
                else if Req_TypeUrl discReq = ListenerType then
                  (if LDSWatch con1 then (con1, [], Continue)
                   else (let con2 = con1\<lparr>LDSWatch := True\<rparr>;
                             (sent, err) = pushLds env con2
                         in afterPush con2 sent err))
                else if Req_TypeUrl discReq = RouteType then
                  (let routes = Req_ResourceNames discReq
                   in if (length routes = length (Routes con1) \<or> length routes = 0)
                         \<and> 0 < length (Routes con1)
                      then (con1, [], Continue)
                      else (let con2 = con1\<lparr>Routes := routes\<rparr>;
                                (con3, sent, err) = pushRoute env con2
                            in afterPush con3 sent err))
                else if Req_TypeUrl discReq = EndpointType then
                  (let clusters = Req_ResourceNames discReq
                   in if (length clusters = length (Clusters con1) \<or> length clusters = 0)
                         \<and> 0 < length (Clusters con1)
                      then (con1, [], Continue)
                      else (let con2 = con1\<lparr>Clusters := clusters\<rparr>;
                                (sent, err) = pushEds env con2
                            in afterPush con2 sent err))
                else afterPush con1 [] None))"

definition newConnection :: XdsConnection where
  \<comment> \<open>The connection as \<^verbatim>\<open>StreamAggregatedResources\<close> creates it.\<close>
  "newConnection =
     \<lparr>ConID = '''', modelNode = None, RouteConfigs = Map.empty, Clusters = [], Routes = [],
      LDSWatch = False, CDSWatch = False, added = False\<rparr>"

definition demoEnv :: Env where
  \<comment> \<open>An environment in which every push puts one response on the stream and succeeds.\<close>
  "demoEnv =
     \<lparr>ParseServiceNode = (\<lambda>id. Inr \<lparr>Proxy_Type = ''sidecar'', Proxy_IPAddress = ''10.0.0.1'',
                                      Proxy_ID = id, Proxy_Domain = ''cluster.local''\<rparr>),
      connectionID = (\<lambda>id. id @ ''-1''),
      pushCds = (\<lambda>con. ([\<lparr>Resp_TypeUrl = ClusterType, Resp_VersionInfo = ''v'', Resp_Nonce = ''n'',
                            Resp_Resources = []\<rparr>], None)),
      pushLds = (\<lambda>con. ([\<lparr>Resp_TypeUrl = ListenerType, Resp_VersionInfo = ''v'', Resp_Nonce = ''n'',
                            Resp_Resources = []\<rparr>], None)),
      pushEds = (\<lambda>con. ([\<lparr>Resp_TypeUrl = EndpointType, Resp_VersionInfo = ''v'', Resp_Nonce = ''n'',
                            Resp_Resources = Clusters con\<rparr>], None)),
      GetProxyServiceInstances = (\<lambda>node. None),
      BuildSidecarOutboundHTTPRouteConfig = (\<lambda>node routeName. routeName),
      versionInfo = ''v'',
      nonce = ''n'',
      Send = (\<lambda>response. None)\<rparr>"

definition routeRequest :: "string list \<Rightarrow> DiscoveryRequest" where
  "routeRequest names =
     \<lparr>Req_NodeId = ''sidecar.10.0.0.1.reviews.cluster.local'', Req_TypeUrl = RouteType,
      Req_ResourceNames = names, Req_VersionInfo = ''v'', Req_ResponseNonce = ''n'',
      Req_ErrorDetail = None\<rparr>"

definition handlePush ::
  "Env \<Rightarrow> XdsConnection \<Rightarrow> XdsConnection \<times> DiscoveryResponse list \<times> outcome" where
  \<comment> \<open>One pass of the loop for a signal on the push channel: clusters, routes, endpoints and
      listeners are pushed in that order, each only if watched; the first failure returns.\<close>
  "handlePush env con =
     (let (sent1, err1) = (if CDSWatch con then pushCds env con else ([], None))
      in case err1 of
           Some e \<Rightarrow> (con, sent1, Return e)
         | None \<Rightarrow>
             (let (con2, sent2, err2) =
                    (if 0 < length (Routes con) then pushRoute env con else (con, [], None))
              in case err2 of
                   Some e \<Rightarrow> (con2, sent1 @ sent2, Return e)
                 | None \<Rightarrow>
                     (let (sent3, err3) =
                            (if 0 < length (Clusters con2) then pushEds env con2 else ([], None))
                      in case err3 of
                           Some e \<Rightarrow> (con2, sent1 @ sent2 @ sent3, Return e)
                         | None \<Rightarrow>
                             (let (sent4, err4) =
                                    (if LDSWatch con2 then pushLds env con2 else ([], None))
                              in (con2, sent1 @ sent2 @ sent3 @ sent4,
                                  (case err4 of Some e \<Rightarrow> Return e | None \<Rightarrow> Continue))))))"
section \<open>Properties of the hostname algebra\<close>

lemma Hostnames_Less_specificity: "Hostnames_Less a b \<longleftrightarrow> specificity a < specificity b"
  by (auto simp: Hostnames_Less_def specificity_def)

lemma specificity_le: "specificity a \<le> specificity b \<longleftrightarrow> a = b \<or> Hostnames_Less a b"
  by (auto simp: Hostnames_Less_specificity specificity_def order.order_iff_strict)

lemma inj_specificity: "inj_on specificity A"
  by (simp add: inj_on_def specificity_def)

lemma sort_Hostnames_perm:
  "mset stack1 = mset stack2 \<Longrightarrow> sort_Hostnames stack1 = sort_Hostnames stack2"
  unfolding sort_Hostnames_def by (rule sort_key_eq_sort_key) (simp_all add: inj_specificity)

lemma first_match_found: "snd (first_match needle hs) \<longleftrightarrow> (\<exists>h\<in>set hs. Matches needle h)"
  by (induction hs) auto

lemma first_match_sound:
  "snd (first_match needle hs) \<Longrightarrow>
   fst (first_match needle hs) \<in> set hs \<and> Matches needle (fst (first_match needle hs))"
  by (induction hs) (auto split: if_splits)

lemma first_match_least:
  "sorted (map specificity hs) \<Longrightarrow> h' \<in> set hs \<Longrightarrow> Matches needle h' \<Longrightarrow>
   specificity (fst (first_match needle hs)) \<le> specificity h'"
  by (induction hs) auto

text \<open>Claim C2. For every needle, \<^const>\<open>MostSpecificHostMatch\<close> returns the same pair (element
  and found flag) on any two stacks that are permutations of each other. The flag is set
  exactly when some element of the stack matches, and the element returned is then a matching
  element of the stack that precedes every other matching element in the specificity order
  (literal before wildcard, longer before shorter, then lexicographic).\<close>

theorem MostSpecificHostMatch_reorder:
  assumes "mset stack1 = mset stack2"
  shows "snd (MostSpecificHostMatch needle stack1) = snd (MostSpecificHostMatch needle stack2)
       \<and> (snd (snd (MostSpecificHostMatch needle stack1)) \<longleftrightarrow> (\<exists>h\<in>set stack1. Matches needle h))
       \<and> (snd (snd (MostSpecificHostMatch needle stack1)) \<longrightarrow>
            fst (snd (MostSpecificHostMatch needle stack1)) \<in> set stack1
          \<and> Matches needle (fst (snd (MostSpecificHostMatch needle stack1)))
          \<and> (\<forall>h'\<in>set stack1. Matches needle h' \<longrightarrow>
                h' = fst (snd (MostSpecificHostMatch needle stack1))
              \<or> Hostnames_Less (fst (snd (MostSpecificHostMatch needle stack1))) h'))"
proof -
  let ?s = "sort_Hostnames stack1"
  have set_s: "set ?s = set stack1" by (simp add: sort_Hostnames_def)
  have sorted_s: "sorted (map specificity ?s)" by (simp add: sort_Hostnames_def)
  have res: "snd (MostSpecificHostMatch needle stack1) = first_match needle ?s"
    by (simp add: MostSpecificHostMatch_def Let_def)
  have "snd (MostSpecificHostMatch needle stack1) = snd (MostSpecificHostMatch needle stack2)"
    using sort_Hostnames_perm [OF assms] by (simp add: MostSpecificHostMatch_def Let_def)
  moreover have "snd (first_match needle ?s) \<longleftrightarrow> (\<exists>h\<in>set stack1. Matches needle h)"
    using first_match_found [of needle ?s] set_s by simp
  moreover have "fst (first_match needle ?s) \<in> set stack1
      \<and> Matches needle (fst (first_match needle ?s))" if "snd (first_match needle ?s)"
    using first_match_sound [OF that] set_s by simp
  moreover have "h' = fst (first_match needle ?s) \<or> Hostnames_Less (fst (first_match needle ?s)) h'"
    if "h' \<in> set stack1" "Matches needle h'" for h'
    using first_match_least [OF sorted_s, of h' needle] that set_s
    by (auto simp: specificity_le)
  ultimately show ?thesis unfolding res by blast
qed

theorem MostSpecificHostMatch_reorder_witness:
  "mset [''*.com'', ''*.foo.com'', ''a.foo.com''] = mset [''a.foo.com'', ''*.com'', ''*.foo.com'']
   \<and> snd (MostSpecificHostMatch ''*.foo.com'' [''*.com'', ''*.foo.com'', ''a.foo.com''])
     = (''a.foo.com'', True)
   \<and> snd (MostSpecificHostMatch ''*.foo.com'' [''a.foo.com'', ''*.com'', ''*.foo.com''])
     = (''a.foo.com'', True)"
proof -
  have p: "mset [''*.com'', ''*.foo.com'', ''a.foo.com''] = mset [''a.foo.com'', ''*.com'', ''*.foo.com'']"
    by simp
  have v: "snd (MostSpecificHostMatch ''*.foo.com'' [''*.com'', ''*.foo.com'', ''a.foo.com''])
     = (''a.foo.com'', True)"
    by (simp add: MostSpecificHostMatch_def Let_def sort_Hostnames_def specificity_def is_wildcard_def
        Matches_def HasSuffix_def)
  show ?thesis using MostSpecificHostMatch_reorder [OF p, of "''*.foo.com''"] p v by simp
qed

text \<open>Claim C10. \<^const>\<open>MostSpecificHostMatch\<close> sorts the caller's slice in place: after the call
  the slice holds the same hostnames (as a multiset), ordered by specificity whatever order the
  caller supplied; on the stack \<^verbatim>\<open>[*.com, a.com]\<close> the order after the call differs from the
  order before.\<close>

theorem MostSpecificHostMatch_sorts_in_place:
  "fst (MostSpecificHostMatch needle stack) = sort_Hostnames stack
   \<and> mset (fst (MostSpecificHostMatch needle stack)) = mset stack
   \<and> sorted_wrt (\<lambda>a b. a = b \<or> Hostnames_Less a b) (fst (MostSpecificHostMatch needle stack))
   \<and> fst (MostSpecificHostMatch ''a.com'' [''*.com'', ''a.com'']) \<noteq> [''*.com'', ''a.com'']"
proof -
  have "sorted (map specificity (sort_Hostnames stack))" by (simp add: sort_Hostnames_def)
  then have "sorted_wrt (\<lambda>a b. a = b \<or> Hostnames_Less a b) (sort_Hostnames stack)"
    by (simp add: sorted_wrt_map specificity_le)
  moreover have "mset (sort_Hostnames stack) = mset stack" by (simp add: sort_Hostnames_def)
  moreover have "fst (MostSpecificHostMatch ''a.com'' [''*.com'', ''a.com'']) \<noteq> [''*.com'', ''a.com'']"
    by (simp add: MostSpecificHostMatch_def Let_def sort_Hostnames_def specificity_def is_wildcard_def)
  ultimately show ?thesis by (simp add: MostSpecificHostMatch_def Let_def)
qed

theorem MostSpecificHostMatch_sorts_in_place_witness:
  "fst (MostSpecificHostMatch ''a.com'' [''*.com'', ''b.com'', ''a.com'']) = [''a.com'', ''b.com'', ''*.com'']"
  using MostSpecificHostMatch_sorts_in_place [of "''a.com''" "[''*.com'', ''b.com'', ''a.com'']"]
  by (simp add: sort_Hostnames_def specificity_def is_wildcard_def)

section \<open>Properties of the route compiler\<close>

text \<open>Whenever \<^const>\<open>translateVirtualHost\<close> returns, its result starts with a zero-valued host.\<close>

lemma translateVirtualHost_zero:
  "translateVirtualHost c si pl gn = Inr out \<Longrightarrow> out \<noteq> [] \<and> hd out = zeroGuardedHost"
  by (auto simp: translateVirtualHost_def Let_def split: sum.splits prod.splits if_splits)

text \<open>Claim C1 (every returned host has a positive port and at least one route) fails on the
  code: \<^verbatim>\<open>translateVirtualHost\<close> allocates its result with a length instead of a capacity, so
  every virtual service contributes leading zero-valued hosts. For one virtual service with one
  catch-all rule and an empty service index, the first host returned has port 0 and no
  routes.\<close>

theorem TranslateVirtualHosts_zero_host:
  "\<exists>host rest. TranslateVirtualHosts [reviewsConfig] [] [] (\<lambda>_. False) = Inr (host # rest)
     \<and> GH_Port host = 0 \<and> GH_Routes host = []"
  by (simp add: TranslateVirtualHosts_def translateVirtualHost_def matchServiceHosts_def
      reviewsConfig_def groupByPort_def List.map_filter_simps zeroGuardedHost_def Let_def
      TranslateRoutes_def)

text \<open>What \<^const>\<open>translateRoute\<close> emits as cluster specifier of a route action: exactly one
  destination gives a direct reference to its cluster; any other number of destinations gives
  a weighted-cluster set of the resolved clusters in the declared order, in which every
  declared weight 0 has become 100, also when other destinations are present.\<close>

lemma translateRoute_cluster_specifier:
  assumes "translateRoute in' match port operation serviceIndex proxyLabels gatewayNames = Some r"
      and "HTTP_Redirect in' = None"
  shows "clusterSpecifierOf (Some r) =
           Some (if length (HTTP_Route in') = 1
                 then RouteAction_Cluster
                        (ConvertDestinationToCluster (DW_Destination (hd (HTTP_Route in')))
                           operation in' serviceIndex port)
                 else RouteAction_WeightedClusters
                        (map (\<lambda>dst.
                                \<lparr>CW_Name = ConvertDestinationToCluster (DW_Destination dst)
                                             operation in' serviceIndex port,
                                 CW_Weight = (if DW_Weight dst = 0 then 100 else DW_Weight dst)\<rparr>)
                           (HTTP_Route in')))"
proof -
  let ?w = "map (weightedCluster in' operation serviceIndex port) (HTTP_Route in')"
  have spec: "clusterSpecifierOf (Some r) =
      Some (if length ?w = 1 then RouteAction_Cluster (CW_Name (hd ?w))
            else RouteAction_WeightedClusters ?w)"
    using assms
    by (auto simp: translateRoute_def clusterSpecifierOf_def Let_def split: if_splits)
  have w: "?w = map (\<lambda>dst.
                       \<lparr>CW_Name = ConvertDestinationToCluster (DW_Destination dst)
                                    operation in' serviceIndex port,
                        CW_Weight = (if DW_Weight dst = 0 then 100 else DW_Weight dst)\<rparr>)
                  (HTTP_Route in')"
    by (simp add: weightedCluster_def)
  show ?thesis
  proof (cases "length (HTTP_Route in') = 1")
    case True
    then obtain dst where dst: "HTTP_Route in' = [dst]"
      by (cases "HTTP_Route in'") auto
    show ?thesis using spec by (simp add: dst weightedCluster_def)
  next
    case False
    then show ?thesis using spec unfolding w by simp
  qed
qed

text \<open>Claim C4 (a single destination with weight 0 is emitted as weight 100 and collapses to a
  direct cluster reference; two or more destinations give a weighted-cluster set that preserves
  the relative weights) fails on the code in its second part: the rewrite of weight 0 to 100
  sits inside the loop over all destinations. For the two destinations with the declared
  weights 100 and 0 the emitted weighted-cluster set has the weights 100 and 100, which are
  not in the declared proportions.\<close>

theorem translateRoute_zero_weight_in_set:
  "clusterSpecifierOf
     (translateRoute
        (emptyRule\<lparr>HTTP_Route := [destinationTo ''a.example.com'' 100,
                                   destinationTo ''b.example.com'' 0]\<rparr>)
        None 80 ''split'' [] [] (\<lambda>_. False))
   = Some (RouteAction_WeightedClusters
            [\<lparr>CW_Name = BlackHoleCluster, CW_Weight = 100\<rparr>,
             \<lparr>CW_Name = BlackHoleCluster, CW_Weight = 100\<rparr>])
   \<and> \<not> preserves_relative_weights
          [destinationTo ''a.example.com'' 100, destinationTo ''b.example.com'' 0]
          [\<lparr>CW_Name = BlackHoleCluster, CW_Weight = 100\<rparr>,
           \<lparr>CW_Name = BlackHoleCluster, CW_Weight = 100\<rparr>]"
  by (simp add: clusterSpecifierOf_def translateRoute_def sourceMatchHTTP_def emptyRule_def
      destinationTo_def weightedCluster_def ConvertDestinationToCluster_def
      preserves_relative_weights_def Let_def)

text \<open>With declared weights that are all non-zero the set carries the declared weights, as in
  a 75/25 split; a single destination of weight 0 is a direct cluster reference.\<close>

lemma translateRoute_split_example:
  "clusterSpecifierOf
     (translateRoute
        (emptyRule\<lparr>HTTP_Route := [destinationTo ''a.example.com'' 75,
                                   destinationTo ''b.example.com'' 25]\<rparr>)
        None 80 ''split'' [] [] (\<lambda>_. False))
   = Some (RouteAction_WeightedClusters
            [\<lparr>CW_Name = BlackHoleCluster, CW_Weight = 75\<rparr>,
             \<lparr>CW_Name = BlackHoleCluster, CW_Weight = 25\<rparr>])
   \<and> preserves_relative_weights
        [destinationTo ''a.example.com'' 75, destinationTo ''b.example.com'' 25]
        [\<lparr>CW_Name = BlackHoleCluster, CW_Weight = 75\<rparr>,
         \<lparr>CW_Name = BlackHoleCluster, CW_Weight = 25\<rparr>]
   \<and> clusterSpecifierOf
     (translateRoute (emptyRule\<lparr>HTTP_Route := [destinationTo ''a.example.com'' 0]\<rparr>)
        None 80 ''single'' [] [] (\<lambda>_. False))
   = Some (RouteAction_Cluster BlackHoleCluster)"
  by (simp add: clusterSpecifierOf_def translateRoute_def sourceMatchHTTP_def emptyRule_def
      destinationTo_def weightedCluster_def ConvertDestinationToCluster_def
      preserves_relative_weights_def Let_def)

text \<open>Claim C5 as stated fails: a match that names gateways, none of them in the gateway-name set,
  does not pass although the proxy labels are a superset of its source labels.\<close>

theorem sourceMatchHTTP_gateways_counterexample:
  "\<not> (sourceMatchHTTP
          (Some (emptyMatch\<lparr>Match_Gateways := [''ingress''], Match_SourceLabels := [(''app'', ''a'')]\<rparr>))
          [[(''app'', ''a'')]] (\<lambda>_. False)
        \<longleftrightarrow>
        (list_ex (\<lambda>_. False) [''ingress''] \<or> IsSupersetOf [[(''app'', ''a'')]] [(''app'', ''a'')]))"
  by (simp add: sourceMatchHTTP_def emptyMatch_def IsSupersetOf_def SubsetOf_def)

lemma IsSupersetOf_iff:
  "IsSupersetOf labels selector \<longleftrightarrow>
     (\<exists>l\<in>set labels. \<forall>(k, v)\<in>set selector. map_of l k = Some v)"
  by (auto simp: IsSupersetOf_def SubsetOf_def list_ex_iff list_all_iff)

text \<open>Claim C5, amended. An absent match passes. A match that names gateways passes iff one of its
  gateways is in the gateway-name set (its source labels are not consulted). A match that names
  no gateway passes iff some labels map of the proxy contains every key/value of its source
  labels.\<close>

theorem sourceMatchHTTP_iff:
  "sourceMatchHTTP None proxyLabels gatewayNames
   \<and> (Match_Gateways m \<noteq> [] \<longrightarrow>
        (sourceMatchHTTP (Some m) proxyLabels gatewayNames \<longleftrightarrow>
           (\<exists>g\<in>set (Match_Gateways m). gatewayNames g)))
   \<and> (Match_Gateways m = [] \<longrightarrow>
        (sourceMatchHTTP (Some m) proxyLabels gatewayNames \<longleftrightarrow>
           (\<exists>l\<in>set proxyLabels. \<forall>(k, v)\<in>set (Match_SourceLabels m). map_of l k = Some v)))"
  by (simp add: sourceMatchHTTP_def IsSupersetOf_iff list_ex_iff)

theorem sourceMatchHTTP_iff_witness:
  "sourceMatchHTTP
     (Some (emptyMatch\<lparr>Match_Gateways := [''ingress'', ''mesh'']\<rparr>)) []
     ((\<lambda>_. False)(''mesh'' := True))
   \<and> sourceMatchHTTP
     (Some (emptyMatch\<lparr>Match_SourceLabels := [(''app'', ''a'')]\<rparr>))
     [[(''version'', ''v1''), (''app'', ''a'')]] (\<lambda>_. False)"
proof -
  let ?m1 = "emptyMatch\<lparr>Match_Gateways := [''ingress'', ''mesh'']\<rparr>"
  let ?m2 = "emptyMatch\<lparr>Match_SourceLabels := [(''app'', ''a'')]\<rparr>"
  have g1: "Match_Gateways ?m1 \<noteq> []" by simp
  have g2: "Match_Gateways ?m2 = []" by (simp add: emptyMatch_def)
  have e1: "\<exists>g\<in>set (Match_Gateways ?m1). ((\<lambda>_. False)(''mesh'' := True)) g" by simp
  have e2: "\<exists>l\<in>set [[(''version'', ''v1''), (''app'', ''a'')]].
      \<forall>(k, v)\<in>set (Match_SourceLabels ?m2). map_of l k = Some v" by simp
  show ?thesis
    using sourceMatchHTTP_iff [of "[]" "(\<lambda>_. False)(''mesh'' := True)" ?m1] g1 e1
      sourceMatchHTTP_iff [of "[[(''version'', ''v1''), (''app'', ''a'')]]" "\<lambda>_. False" ?m2] g2 e2
    by blast
qed

lemma find_Some_in_set: "find P xs = Some p \<Longrightarrow> p \<in> set xs \<and> P p"
  by (induction xs) (auto split: if_splits)

lemma Get_Some: "Get ports name = Some p \<Longrightarrow> p \<in> set ports \<and> Port_Name p = name"
  unfolding Get_def by (drule find_Some_in_set) simp

lemma GetByPort_Some: "GetByPort ports num = Some p \<Longrightarrow> p \<in> set ports \<and> Port_Port p = num"
  unfolding GetByPort_def by (drule find_Some_in_set) simp

lemma Get_None: "Get ports name = None \<longleftrightarrow> (\<forall>p\<in>set ports. Port_Name p \<noteq> name)"
  by (auto simp: Get_def find_None_iff)

lemma GetByPort_None: "GetByPort ports num = None \<longleftrightarrow> (\<forall>p\<in>set ports. Port_Port p \<noteq> num)"
  by (auto simp: GetByPort_def find_None_iff)

lemma pinnedPort_Some:
  assumes "pinnedPort d svc defaultPort = Some p"
  shows "p \<in> set (Service_Ports svc)
       \<and> (case Destination_Port d of
            Some (PortSelector_Name name) \<Rightarrow> Port_Name p = name
          | Some (PortSelector_Number number) \<Rightarrow> Port_Port p = uint number
          | _ \<Rightarrow> Port_Port p = defaultPort)"
  using assms
  by (auto simp: pinnedPort_def dest: Get_Some GetByPort_Some
      split: option.splits PortSelector.splits)

lemma pinnedPort_None:
  "pinnedPort d svc defaultPort = None \<longleftrightarrow>
     (\<forall>p\<in>set (Service_Ports svc).
        case Destination_Port d of
          Some (PortSelector_Name name) \<Rightarrow> Port_Name p \<noteq> name
        | Some (PortSelector_Number number) \<Rightarrow> Port_Port p \<noteq> uint number
        | _ \<Rightarrow> Port_Port p \<noteq> defaultPort)"
  by (auto simp: pinnedPort_def Get_None GetByPort_None split: option.splits PortSelector.splits)

lemma ConvertDestinationToCluster_pinned:
  "ConvertDestinationToCluster d vsvcName in' serviceIndex defaultPort =
     (case map_of serviceIndex (Destination_Host d) of
        None \<Rightarrow> BlackHoleCluster
      | Some svc \<Rightarrow>
          (case pinnedPort d svc defaultPort of
             None \<Rightarrow> BlackHoleCluster
           | Some p \<Rightarrow> BuildSubsetKey TrafficDirectionOutbound (Destination_Subset d)
                        (Service_Hostname svc) p))"
  by (simp add: ConvertDestinationToCluster_def pinnedPort_def Let_def split: option.splits)

text \<open>Claim C6. \<^const>\<open>ConvertDestinationToCluster\<close> returns the blackhole cluster when the destination
  host is absent from the service index. When the host is present, the port is looked up by the
  name or number the destination pins, else by the default port number: if the service has no
  such port the result is the blackhole cluster again, otherwise it is the subset key of the
  outbound direction, the destination's subset, the service's hostname and a port of the
  service with that name or number.\<close>

theorem ConvertDestinationToCluster_resolution:
  "(map_of serviceIndex (Destination_Host d) = None \<longrightarrow>
      ConvertDestinationToCluster d vsvcName in' serviceIndex defaultPort = BlackHoleCluster)
   \<and> (\<forall>svc. map_of serviceIndex (Destination_Host d) = Some svc \<longrightarrow>
        ((\<forall>p\<in>set (Service_Ports svc).
             case Destination_Port d of
               Some (PortSelector_Name name) \<Rightarrow> Port_Name p \<noteq> name
             | Some (PortSelector_Number number) \<Rightarrow> Port_Port p \<noteq> uint number
             | _ \<Rightarrow> Port_Port p \<noteq> defaultPort) \<longrightarrow>
           ConvertDestinationToCluster d vsvcName in' serviceIndex defaultPort = BlackHoleCluster)
      \<and> (\<not> (\<forall>p\<in>set (Service_Ports svc).
             case Destination_Port d of
               Some (PortSelector_Name name) \<Rightarrow> Port_Name p \<noteq> name
             | Some (PortSelector_Number number) \<Rightarrow> Port_Port p \<noteq> uint number
             | _ \<Rightarrow> Port_Port p \<noteq> defaultPort) \<longrightarrow>
           (\<exists>p\<in>set (Service_Ports svc).
              (case Destination_Port d of
                 Some (PortSelector_Name name) \<Rightarrow> Port_Name p = name
               | Some (PortSelector_Number number) \<Rightarrow> Port_Port p = uint number
               | _ \<Rightarrow> Port_Port p = defaultPort)
            \<and> ConvertDestinationToCluster d vsvcName in' serviceIndex defaultPort =
                BuildSubsetKey TrafficDirectionOutbound (Destination_Subset d)
                  (Service_Hostname svc) p)))"
proof -
  have absent: "ConvertDestinationToCluster d vsvcName in' serviceIndex defaultPort = BlackHoleCluster"
    if "map_of serviceIndex (Destination_Host d) = None"
    using that by (simp add: ConvertDestinationToCluster_pinned)
  have unknown: "ConvertDestinationToCluster d vsvcName in' serviceIndex defaultPort = BlackHoleCluster"
    if "map_of serviceIndex (Destination_Host d) = Some svc"
       "pinnedPort d svc defaultPort = None" for svc
    using that by (simp add: ConvertDestinationToCluster_pinned)
  have known: "\<exists>p\<in>set (Service_Ports svc).
              (case Destination_Port d of
                 Some (PortSelector_Name name) \<Rightarrow> Port_Name p = name
               | Some (PortSelector_Number number) \<Rightarrow> Port_Port p = uint number
               | _ \<Rightarrow> Port_Port p = defaultPort)
            \<and> ConvertDestinationToCluster d vsvcName in' serviceIndex defaultPort =
                BuildSubsetKey TrafficDirectionOutbound (Destination_Subset d)
                  (Service_Hostname svc) p"
    if svc: "map_of serviceIndex (Destination_Host d) = Some svc"
       and some: "pinnedPort d svc defaultPort \<noteq> None" for svc
  proof -
    from some obtain p where p: "pinnedPort d svc defaultPort = Some p" by blast
    have "ConvertDestinationToCluster d vsvcName in' serviceIndex defaultPort =
                BuildSubsetKey TrafficDirectionOutbound (Destination_Subset d)
                  (Service_Hostname svc) p"
      using svc p by (simp add: ConvertDestinationToCluster_pinned)
    then show ?thesis using pinnedPort_Some [OF p] by blast
  qed
  show ?thesis
    using absent unknown known unfolding pinnedPort_None by blast
qed

theorem ConvertDestinationToCluster_resolution_witness:
  "ConvertDestinationToCluster
     \<lparr>Destination_Host = ''productpage.default.svc.cluster.local'', Destination_Subset = ''v1'',
      Destination_Port = Some (PortSelector_Number 9090)\<rparr>
     ''rule'' emptyRule [(''productpage.default.svc.cluster.local'', productpage)] 9080
   = ''outbound|v1|productpage.default.svc.cluster.local|tcp-admin''
   \<and> ConvertDestinationToCluster
     \<lparr>Destination_Host = ''ratings.default.svc.cluster.local'', Destination_Subset = ''v1'',
      Destination_Port = None\<rparr>
     ''rule'' emptyRule [(''productpage.default.svc.cluster.local'', productpage)] 9080
   = BlackHoleCluster"
proof -
  let ?si = "[(''productpage.default.svc.cluster.local'', productpage)]"
  let ?d1 = "\<lparr>Destination_Host = ''productpage.default.svc.cluster.local'',
      Destination_Subset = ''v1'', Destination_Port = Some (PortSelector_Number 9090)\<rparr>"
  let ?d2 = "\<lparr>Destination_Host = ''ratings.default.svc.cluster.local'', Destination_Subset = ''v1'',
      Destination_Port = None\<rparr>"
  have present: "map_of ?si (Destination_Host ?d1) = Some productpage" by simp
  have absent: "map_of ?si (Destination_Host ?d2) = None" by simp
  have known: "\<not> (\<forall>p\<in>set (Service_Ports productpage).
             case Destination_Port ?d1 of
               Some (PortSelector_Name name) \<Rightarrow> Port_Name p \<noteq> name
             | Some (PortSelector_Number number) \<Rightarrow> Port_Port p \<noteq> uint number
             | _ \<Rightarrow> Port_Port p \<noteq> 9080)"
    by (simp add: productpage_def)
  from ConvertDestinationToCluster_resolution [of ?si ?d1 "''rule''" emptyRule 9080] present known
  obtain p where p: "p \<in> set (Service_Ports productpage)" "Port_Port p = 9090"
    "ConvertDestinationToCluster ?d1 ''rule'' emptyRule ?si 9080 =
       BuildSubsetKey TrafficDirectionOutbound (Destination_Subset ?d1)
         (Service_Hostname productpage) p"
    by auto
  from p(1,2) have "p = \<lparr>Port_Name = ''tcp-admin'', Port_Port = 9090, Port_Protocol = ProtocolTCP\<rparr>"
    by (auto simp: productpage_def)
  with p(3) have a: "ConvertDestinationToCluster ?d1 ''rule'' emptyRule ?si 9080
      = ''outbound|v1|productpage.default.svc.cluster.local|tcp-admin''"
    by (simp add: BuildSubsetKey_def TrafficDirectionOutbound_def productpage_def)
  have b: "ConvertDestinationToCluster ?d2 ''rule'' emptyRule ?si 9080 = BlackHoleCluster"
    using ConvertDestinationToCluster_resolution [of ?si ?d2 "''rule''" emptyRule 9080] absent
    by blast
  show ?thesis using a b by simp
qed

lemma translateRoute_nil_match:
  "\<exists>r. translateRoute http None port operation serviceIndex proxyLabels gatewayNames = Some r
       \<and> Route_Match r = \<lparr>RM_PathSpecifier = RouteMatch_Prefix ''/'', RM_Headers = []\<rparr>"
  by (simp add: translateRoute_def sourceMatchHTTP_def translateRouteMatch_def)

lemma translateRoute_passes:
  "translateRoute http (Some m) port operation serviceIndex proxyLabels gatewayNames \<noteq> None
   \<longleftrightarrow> sourceMatchHTTP (Some m) proxyLabels gatewayNames
       \<and> (Match_Port m = 0 \<or> Match_Port m = word_of_int port)"
  by (auto simp: translateRoute_def)

lemma routes_of_rules_split:
  "routes_of_rules rules port operation serviceIndex proxyLabels gatewayNames =
     concat (map (\<lambda>http. List.map_filter
                    (\<lambda>m. translateRoute http (Some m) port operation serviceIndex proxyLabels
                       gatewayNames) (HTTP_Match http))
              (takeWhile (\<lambda>http. HTTP_Match http \<noteq> []) rules))
     @ (case dropWhile (\<lambda>http. HTTP_Match http \<noteq> []) rules of
          [] \<Rightarrow> []
        | http # later \<Rightarrow>
            (case translateRoute http None port operation serviceIndex proxyLabels gatewayNames of
               Some r \<Rightarrow> [r] | None \<Rightarrow> []))"
  by (induction rules) simp_all

text \<open>Claim C8. For a virtual service, \<^const>\<open>TranslateRoutes\<close> walks the HTTP rules in declaration
  order: each rule of the longest prefix of rules with match clauses contributes, in order, one
  route per match clause that \<^const>\<open>translateRoute\<close> accepts; the first rule without match clauses
  contributes one catch-all route and no later rule contributes anything. A match clause is
  accepted exactly when its source predicate and its port predicate pass, and a nil match is
  always accepted with the prefix \<^verbatim>\<open>/\<close>. An empty result is the error
  \<^const>\<open>NoRoutesMatched\<close>.\<close>

theorem TranslateRoutes_rules:
  assumes "Config_Spec virtualService = Spec_VirtualService rule"
  shows "(let operation = Meta_Name (Config_Meta virtualService);
              matched = takeWhile (\<lambda>http. HTTP_Match http \<noteq> []) (VS_Http rule);
              routes =
                concat (map (\<lambda>http. List.map_filter
                               (\<lambda>m. translateRoute http (Some m) port operation serviceIndex
                                  proxyLabels gatewayNames) (HTTP_Match http)) matched)
                @ (case drop (length matched) (VS_Http rule) of
                     [] \<Rightarrow> []
                   | http # later \<Rightarrow>
                       (case translateRoute http None port operation serviceIndex proxyLabels
                               gatewayNames of
                          Some r \<Rightarrow> [r] | None \<Rightarrow> []))
          in TranslateRoutes virtualService serviceIndex port proxyLabels gatewayNames =
               (if routes = [] then Inl NoRoutesMatched else Inr routes))
       \<and> (\<forall>http operation. \<exists>r.
            translateRoute http None port operation serviceIndex proxyLabels gatewayNames = Some r
          \<and> Route_Match r = \<lparr>RM_PathSpecifier = RouteMatch_Prefix ''/'', RM_Headers = []\<rparr>)
       \<and> (\<forall>http m operation.
            translateRoute http (Some m) port operation serviceIndex proxyLabels gatewayNames \<noteq> None
            \<longleftrightarrow> sourceMatchHTTP (Some m) proxyLabels gatewayNames
                \<and> (Match_Port m = 0 \<or> Match_Port m = word_of_int port))"
proof -
  have drop_eq: "drop (length (takeWhile P xs)) xs = dropWhile P xs" for P and xs :: "HTTPRoute list"
    by (induction xs) simp_all
  have "TranslateRoutes virtualService serviceIndex port proxyLabels gatewayNames =
      (let out = routes_of_rules (VS_Http rule) port (Meta_Name (Config_Meta virtualService))
                   serviceIndex proxyLabels gatewayNames
       in if out = [] then Inl NoRoutesMatched else Inr out)"
    using assms by (simp add: TranslateRoutes_def Let_def)
  then show ?thesis
    unfolding Let_def drop_eq
    using routes_of_rules_split [of "VS_Http rule" port "Meta_Name (Config_Meta virtualService)"
        serviceIndex proxyLabels gatewayNames]
      translateRoute_nil_match translateRoute_passes
    by simp
qed

theorem TranslateRoutes_rules_witness:
  "TranslateRoutes twoRuleConfig [] 80 [[]] (\<lambda>_. False) =
     Inr [\<lparr>Route_Match = \<lparr>RM_PathSpecifier = RouteMatch_Prefix ''/'', RM_Headers = []\<rparr>,
           Route_Decorator = ''reviews'', Route_Action = Route_Redirect ''b'' ''/v2''\<rparr>,
          \<lparr>Route_Match = \<lparr>RM_PathSpecifier = RouteMatch_Prefix ''/'', RM_Headers = []\<rparr>,
           Route_Decorator = ''reviews'', Route_Action = Route_Redirect ''c'' ''/''\<rparr>]"
proof -
  have spec: "Config_Spec twoRuleConfig = Spec_VirtualService
        \<lparr>VS_Hosts = [''reviews.example.com''], VS_Gateways = [],
         VS_Http =
           [emptyRule\<lparr>HTTP_Match := [emptyMatch\<lparr>Match_Port := 9080\<rparr>, emptyMatch\<lparr>Match_Port := 80\<rparr>],
                      HTTP_Redirect := Some \<lparr>Redirect_Uri = ''/v2'', Redirect_Authority = ''b''\<rparr>\<rparr>,
            emptyRule\<lparr>HTTP_Redirect := Some \<lparr>Redirect_Uri = ''/'', Redirect_Authority = ''c''\<rparr>\<rparr>,
            emptyRule\<lparr>HTTP_Redirect := Some \<lparr>Redirect_Uri = ''/'', Redirect_Authority = ''d''\<rparr>\<rparr>],
         VS_Tcp = []\<rparr>"
    by (simp add: twoRuleConfig_def)
  show ?thesis
    using TranslateRoutes_rules [OF spec, of 80 "[]" "[[]]" "\<lambda>_. False", THEN conjunct1]
    by (simp add: Let_def emptyRule_def emptyMatch_def List.map_filter_simps translateRoute_def
        sourceMatchHTTP_def IsSupersetOf_def SubsetOf_def translateRouteMatch_def
        optional_header_def twoRuleConfig_def metaOf_def)
qed

section \<open>Properties of the typed config store\<close>

text \<open>Claim C7 as stated fails in its tie rule: for two namespace-scope policies the one returned
  is the one that \<^verbatim>\<open>List\<close> yields first, whichever key is smaller.\<close>

theorem AuthenticationPolicyByDestination_tie_counterexample:
  "AuthenticationPolicyByDestination (\<lambda>_ _. True)
     (\<lambda>_ _. Inr [namespacePolicy ''b'', namespacePolicy ''a''])
     ''reviews.default.svc.cluster.local'' httpPort = Inr (Some (namespacePolicy ''b''))
   \<and> AuthenticationPolicyByDestination (\<lambda>_ _. True)
     (\<lambda>_ _. Inr [namespacePolicy ''a'', namespacePolicy ''b''])
     ''reviews.default.svc.cluster.local'' httpPort = Inr (Some (namespacePolicy ''a''))
   \<and> Key (Config_Meta (namespacePolicy ''a'')) < Key (Config_Meta (namespacePolicy ''b''))"
  by (simp add: AuthenticationPolicyByDestination_def namespacePolicy_def matchLevel_def
      zeroConfig_def Let_def Key_def Key3_def metaOf_def AuthenticationPolicy_Type_def)

lemma policyLoop_first_best:
  assumes "\<forall>s\<in>set specs. isPolicy s"
  shows "(\<forall>s\<in>set specs. levelOf pm h p s \<le> cur) \<and>
           policyLoop pm h p specs (out, cur) = Inr (out, cur)
       \<or> (\<exists>pre s post. specs = pre @ s # post
            \<and> policyLoop pm h p specs (out, cur) = Inr (s, levelOf pm h p s)
            \<and> cur < levelOf pm h p s
            \<and> (\<forall>x\<in>set pre. levelOf pm h p x < levelOf pm h p s)
            \<and> (\<forall>x\<in>set post. levelOf pm h p x \<le> levelOf pm h p s))"
  using assms
proof (induction specs arbitrary: out cur)
  case Nil
  then show ?case by simp
next
  case (Cons a rest)
  from Cons.prems obtain policy where a: "Config_Spec a = Spec_Policy policy"
    by (auto simp: isPolicy_def split: Spec.splits)
  have lvl: "levelOf pm h p a = matchLevel pm h p (Config_Meta a) policy"
    by (simp add: levelOf_def a)
  have rest: "\<forall>s\<in>set rest. isPolicy s" using Cons.prems by simp
  show ?case
  proof (cases "cur < levelOf pm h p a")
    case True
    then have step: "policyLoop pm h p (a # rest) (out, cur) =
        policyLoop pm h p rest (a, levelOf pm h p a)"
      by (simp add: a lvl Let_def)
    from Cons.IH [OF rest, of "levelOf pm h p a" a]
    show ?thesis
    proof
      assume "(\<forall>s\<in>set rest. levelOf pm h p s \<le> levelOf pm h p a) \<and>
        policyLoop pm h p rest (a, levelOf pm h p a) = Inr (a, levelOf pm h p a)"
      then have "a # rest = [] @ a # rest
          \<and> policyLoop pm h p (a # rest) (out, cur) = Inr (a, levelOf pm h p a)
          \<and> cur < levelOf pm h p a
          \<and> (\<forall>x\<in>set []. levelOf pm h p x < levelOf pm h p a)
          \<and> (\<forall>x\<in>set rest. levelOf pm h p x \<le> levelOf pm h p a)"
        using True step by simp
      then show ?thesis by blast
    next
      assume "\<exists>pre s post. rest = pre @ s # post
            \<and> policyLoop pm h p rest (a, levelOf pm h p a) = Inr (s, levelOf pm h p s)
            \<and> levelOf pm h p a < levelOf pm h p s
            \<and> (\<forall>x\<in>set pre. levelOf pm h p x < levelOf pm h p s)
            \<and> (\<forall>x\<in>set post. levelOf pm h p x \<le> levelOf pm h p s)"
      then obtain pre s post where *: "rest = pre @ s # post"
            "policyLoop pm h p rest (a, levelOf pm h p a) = Inr (s, levelOf pm h p s)"
            "levelOf pm h p a < levelOf pm h p s"
            "\<forall>x\<in>set pre. levelOf pm h p x < levelOf pm h p s"
            "\<forall>x\<in>set post. levelOf pm h p x \<le> levelOf pm h p s"
        by blast
      then have "a # rest = (a # pre) @ s # post
          \<and> policyLoop pm h p (a # rest) (out, cur) = Inr (s, levelOf pm h p s)
          \<and> cur < levelOf pm h p s
          \<and> (\<forall>x\<in>set (a # pre). levelOf pm h p x < levelOf pm h p s)
          \<and> (\<forall>x\<in>set post. levelOf pm h p x \<le> levelOf pm h p s)"
        using True step by simp
      then show ?thesis by blast
    qed
  next
    case False
    then have step: "policyLoop pm h p (a # rest) (out, cur) = policyLoop pm h p rest (out, cur)"
      by (simp add: a lvl Let_def)
    from Cons.IH [OF rest, of cur out]
    show ?thesis
    proof
      assume "(\<forall>s\<in>set rest. levelOf pm h p s \<le> cur) \<and>
        policyLoop pm h p rest (out, cur) = Inr (out, cur)"
      then show ?thesis using False step by simp
    next
      assume "\<exists>pre s post. rest = pre @ s # post
            \<and> policyLoop pm h p rest (out, cur) = Inr (s, levelOf pm h p s)
            \<and> cur < levelOf pm h p s
            \<and> (\<forall>x\<in>set pre. levelOf pm h p x < levelOf pm h p s)
            \<and> (\<forall>x\<in>set post. levelOf pm h p x \<le> levelOf pm h p s)"
      then obtain pre s post where *: "rest = pre @ s # post"
            "policyLoop pm h p rest (out, cur) = Inr (s, levelOf pm h p s)"
            "cur < levelOf pm h p s"
            "\<forall>x\<in>set pre. levelOf pm h p x < levelOf pm h p s"
            "\<forall>x\<in>set post. levelOf pm h p x \<le> levelOf pm h p s"
        by blast
      then have "a # rest = (a # pre) @ s # post
          \<and> policyLoop pm h p (a # rest) (out, cur) = Inr (s, levelOf pm h p s)
          \<and> cur < levelOf pm h p s
          \<and> (\<forall>x\<in>set (a # pre). levelOf pm h p x < levelOf pm h p s)
          \<and> (\<forall>x\<in>set post. levelOf pm h p x \<le> levelOf pm h p s)"
        using False step by simp
      then show ?thesis by blast
    qed
  qed
qed

lemma levelOf_range: "isPolicy s \<Longrightarrow> levelOf pm h p s \<in> {0, 2, 3}"
  by (auto simp: isPolicy_def levelOf_def matchLevel_def split: Spec.splits)

text \<open>Claim C7, amended. For a hostname with at least two dot-separated parts whose namespace
  lists policies only: if no policy matches the destination the result is nil; otherwise the
  result is a policy of the highest scope tier among the listed ones (workload 3 above
  namespace 2; the global tier is never assigned), and among several policies of that tier it
  is the first in the order of the list.\<close>

theorem AuthenticationPolicyByDestination_first_best:
  assumes parts: "2 \<le> length (Split hostname (CHR ''.''))"
      and list: "store AuthenticationPolicy_Type (Split hostname (CHR ''.'') ! 1) = Inr specs"
      and pol: "\<forall>s\<in>set specs. isPolicy s"
  shows "((\<forall>s\<in>set specs. levelOf portMatch hostname port s = 0) \<longrightarrow>
            AuthenticationPolicyByDestination portMatch store hostname port = Inr None)
       \<and> (\<not> (\<forall>s\<in>set specs. levelOf portMatch hostname port s = 0) \<longrightarrow>
            (\<exists>pre s post. specs = pre @ s # post
               \<and> AuthenticationPolicyByDestination portMatch store hostname port = Inr (Some s)
               \<and> (\<forall>x\<in>set pre. levelOf portMatch hostname port x < levelOf portMatch hostname port s)
               \<and> (\<forall>x\<in>set post. levelOf portMatch hostname port x \<le> levelOf portMatch hostname port s)))"
proof -
  have nonneg: "0 \<le> levelOf portMatch hostname port s" if "s \<in> set specs" for s
    using levelOf_range [of s portMatch hostname port] pol that by auto
  have run: "AuthenticationPolicyByDestination portMatch store hostname port =
      (case policyLoop portMatch hostname port specs (zeroConfig, 0) of
         Inl e \<Rightarrow> Inl e
       | Inr (out, currentMatchLevel) \<Rightarrow>
           if currentMatchLevel = 0 then Inr None else Inr (Some out))"
    using parts list by (simp add: AuthenticationPolicyByDestination_def Let_def)
  from policyLoop_first_best [OF pol, of portMatch hostname port 0 zeroConfig]
  show ?thesis
  proof
    assume a: "(\<forall>s\<in>set specs. levelOf portMatch hostname port s \<le> 0) \<and>
        policyLoop portMatch hostname port specs (zeroConfig, 0) = Inr (zeroConfig, 0)"
    then have "\<forall>s\<in>set specs. levelOf portMatch hostname port s = 0"
      using nonneg by fastforce
    then show ?thesis using a run by simp
  next
    assume "\<exists>pre s post. specs = pre @ s # post
            \<and> policyLoop portMatch hostname port specs (zeroConfig, 0)
                = Inr (s, levelOf portMatch hostname port s)
            \<and> 0 < levelOf portMatch hostname port s
            \<and> (\<forall>x\<in>set pre. levelOf portMatch hostname port x < levelOf portMatch hostname port s)
            \<and> (\<forall>x\<in>set post. levelOf portMatch hostname port x \<le> levelOf portMatch hostname port s)"
    then obtain pre s post where *: "specs = pre @ s # post"
        "policyLoop portMatch hostname port specs (zeroConfig, 0)
                = Inr (s, levelOf portMatch hostname port s)"
        "0 < levelOf portMatch hostname port s"
        "\<forall>x\<in>set pre. levelOf portMatch hostname port x < levelOf portMatch hostname port s"
        "\<forall>x\<in>set post. levelOf portMatch hostname port x \<le> levelOf portMatch hostname port s"
      by blast
    have res: "AuthenticationPolicyByDestination portMatch store hostname port = Inr (Some s)"
      using run *(2,3) by simp
    have "\<not> (\<forall>s\<in>set specs. levelOf portMatch hostname port s = 0)"
      using *(1,3) by auto
    then show ?thesis using * res by blast
  qed
qed

theorem AuthenticationPolicyByDestination_first_best_witness:
  "AuthenticationPolicyByDestination (\<lambda>_ _. True)
     (\<lambda>_ _. Inr [namespacePolicy ''b'', workloadPolicy ''w'' ''reviews'', namespacePolicy ''a'',
                 workloadPolicy ''v'' ''reviews''])
     ''reviews.default.svc.cluster.local'' httpPort = Inr (Some (workloadPolicy ''w'' ''reviews''))
   \<and> (\<exists>pre post.
        [namespacePolicy ''b'', workloadPolicy ''w'' ''reviews'', namespacePolicy ''a'',
         workloadPolicy ''v'' ''reviews''] = pre @ workloadPolicy ''w'' ''reviews'' # post
      \<and> (\<forall>x\<in>set pre. levelOf (\<lambda>_ _. True) ''reviews.default.svc.cluster.local'' httpPort x < 3)
      \<and> (\<forall>x\<in>set post. levelOf (\<lambda>_ _. True) ''reviews.default.svc.cluster.local'' httpPort x \<le> 3))"
proof -
  let ?specs = "[namespacePolicy ''b'', workloadPolicy ''w'' ''reviews'', namespacePolicy ''a'',
                 workloadPolicy ''v'' ''reviews'']"
  let ?h = "''reviews.default.svc.cluster.local''"
  let ?store = "\<lambda>(_::string) (_::string). Inr ?specs :: error + Spec Config list"
  let ?pm = "\<lambda>(_::Port) (_::PortSelector). True"
  have parts: "2 \<le> length (Split ?h (CHR ''.''))" by simp
  have list: "?store AuthenticationPolicy_Type (Split ?h (CHR ''.'') ! 1) = Inr ?specs" by simp
  have pol: "\<forall>s\<in>set ?specs. isPolicy s"
    by (simp add: isPolicy_def namespacePolicy_def workloadPolicy_def)
  have ns: "levelOf ?pm ?h httpPort (namespacePolicy n) = 2" for n
    by (simp add: levelOf_def namespacePolicy_def matchLevel_def)
  have wl: "levelOf ?pm ?h httpPort (workloadPolicy n ''reviews'') = 3" for n
    by (simp add: levelOf_def workloadPolicy_def matchLevel_def targetMatches_def
        ResolveHostname_def metaOf_def)
  have some: "\<not> (\<forall>s\<in>set ?specs. levelOf ?pm ?h httpPort s = 0)" by (simp add: ns)
  have val: "AuthenticationPolicyByDestination ?pm ?store ?h httpPort
      = Inr (Some (workloadPolicy ''w'' ''reviews''))"
    by (simp add: AuthenticationPolicyByDestination_def namespacePolicy_def workloadPolicy_def
        matchLevel_def targetMatches_def ResolveHostname_def metaOf_def zeroConfig_def Let_def)
  from AuthenticationPolicyByDestination_first_best [of ?h ?store ?specs ?pm httpPort, OF parts list pol]
    some
  obtain pre s post where *: "?specs = pre @ s # post"
      "AuthenticationPolicyByDestination ?pm ?store ?h httpPort = Inr (Some s)"
      "\<forall>x\<in>set pre. levelOf ?pm ?h httpPort x < levelOf ?pm ?h httpPort s"
      "\<forall>x\<in>set post. levelOf ?pm ?h httpPort x \<le> levelOf ?pm ?h httpPort s"
    by blast
  from *(2) val have s: "s = workloadPolicy ''w'' ''reviews''" by simp
  have "?specs = pre @ workloadPolicy ''w'' ''reviews'' # post
      \<and> (\<forall>x\<in>set pre. levelOf ?pm ?h httpPort x < 3)
      \<and> (\<forall>x\<in>set post. levelOf ?pm ?h httpPort x \<le> 3)"
    using * unfolding s wl by simp
  then show ?thesis using val by blast
qed

text \<open>Claim C9 (the query leaves the stored specs unchanged) fails on the code: the second loop of
  \<^verbatim>\<open>VirtualServices\<close> assigns the resolved names into the spec object behind the pointer that
  \<^verbatim>\<open>List\<close> returned. For a stored virtual service with the short host \<^verbatim>\<open>reviews\<close>, queried for
  the mesh gateway, the spec object afterwards holds the fully qualified names.\<close>

theorem VirtualServices_rewrites_stored_spec:
  "\<exists>out h'. VirtualServices reviewsStore reviewsHeap ((\<lambda>_. False)(IstioMeshGateway := True))
              = Inr (out, h')
     \<and> map Config_Spec out = [0]
     \<and> reviewsHeap 0 = Some (Spec_VirtualService
          \<lparr>VS_Hosts = [''reviews''], VS_Gateways = [],
           VS_Http = [emptyRule\<lparr>HTTP_Route := [destinationTo ''reviews'' 100]\<rparr>], VS_Tcp = []\<rparr>)
     \<and> h' 0 = Some (Spec_VirtualService
          \<lparr>VS_Hosts = [''reviews.default.svc.cluster.local''], VS_Gateways = [],
           VS_Http = [emptyRule\<lparr>HTTP_Route :=
                        [destinationTo ''reviews.default.svc.cluster.local'' 100]\<rparr>],
           VS_Tcp = []\<rparr>)
     \<and> h' 0 \<noteq> reviewsHeap 0"
  by (simp add: VirtualServices_def reviewsStore_def reviewsHeap_def storedReviews_def
      boundTo_def resolveVirtualService_def resolveHTTPRoute_def resolveDestinationWeight_def
      ResolveShortnameToFQDN_def metaOf_def emptyRule_def destinationTo_def
      NamespaceAll_def IstioMeshGateway_def)

section \<open>Properties of the discovery stream\<close>

lemma handleRequest_ack_CDS:
  "CDSWatch con \<Longrightarrow> Req_TypeUrl req = ClusterType \<Longrightarrow>
   fst (snd (handleRequest env con req)) = []"
  by (simp add: handleRequest_def Let_def split: sum.splits)

lemma handleRequest_ack_LDS:
  "LDSWatch con \<Longrightarrow> Req_TypeUrl req = ListenerType \<Longrightarrow>
   fst (snd (handleRequest env con req)) = []"
  by (simp add: handleRequest_def Let_def ClusterType_def ListenerType_def split: sum.splits)

lemma handleRequest_ack_RDS:
  "Routes con \<noteq> [] \<Longrightarrow> length (Req_ResourceNames req) = length (Routes con) \<Longrightarrow>
   Req_TypeUrl req = RouteType \<Longrightarrow>
   fst (snd (handleRequest env con req)) = []"
  by (simp add: handleRequest_def Let_def ClusterType_def ListenerType_def RouteType_def
      split: sum.splits)

lemma handleRequest_ack_EDS:
  "Clusters con \<noteq> [] \<Longrightarrow> length (Req_ResourceNames req) = length (Clusters con) \<Longrightarrow>
   Req_TypeUrl req = EndpointType \<Longrightarrow>
   fst (snd (handleRequest env con req)) = []"
  by (simp add: handleRequest_def Let_def ClusterType_def ListenerType_def RouteType_def
      EndpointType_def split: sum.splits)

lemma pushRoute_Routes: "pushRoute env con = (con', sent, err) \<Longrightarrow> Routes con' = Routes con"
  by (auto simp: pushRoute_def Let_def split: option.splits)

lemma afterPush_Continue:
  "afterPush con sent err = (con', sent', Continue) \<Longrightarrow> con' = con\<lparr>added := True\<rparr>"
  by (auto simp: afterPush_def split: option.splits)

lemma handleRequest_then_CDS:
  assumes "handleRequest env con req = (con', sent, Continue)"
      and "Req_TypeUrl req = ClusterType" and "Req_NodeId req \<noteq> ''''"
  shows "CDSWatch con'"
  using assms
  by (auto simp: handleRequest_def Let_def split: sum.splits if_splits prod.splits
      dest!: afterPush_Continue)

lemma handleRequest_then_LDS:
  assumes "handleRequest env con req = (con', sent, Continue)"
      and "Req_TypeUrl req = ListenerType" and "Req_NodeId req \<noteq> ''''"
  shows "LDSWatch con'"
  using assms
  by (auto simp: handleRequest_def Let_def ClusterType_def ListenerType_def
      split: sum.splits if_splits prod.splits dest!: afterPush_Continue)

lemma handleRequest_then_RDS:
  assumes "handleRequest env con req = (con', sent, Continue)"
      and "Req_TypeUrl req = RouteType" and "Req_NodeId req \<noteq> ''''"
      and "Req_ResourceNames req \<noteq> []"
  shows "Routes con' \<noteq> [] \<and> length (Req_ResourceNames req) = length (Routes con')"
  using assms
  by (auto simp: handleRequest_def Let_def ClusterType_def ListenerType_def RouteType_def
      split: sum.splits if_splits prod.splits dest!: afterPush_Continue pushRoute_Routes)

lemma handleRequest_then_EDS:
  assumes "handleRequest env con req = (con', sent, Continue)"
      and "Req_TypeUrl req = EndpointType" and "Req_NodeId req \<noteq> ''''"
      and "Req_ResourceNames req \<noteq> []"
  shows "Clusters con' \<noteq> [] \<and> length (Req_ResourceNames req) = length (Clusters con')"
  using assms
  by (auto simp: handleRequest_def Let_def ClusterType_def ListenerType_def RouteType_def
      EndpointType_def split: sum.splits if_splits prod.splits dest!: afterPush_Continue)

lemma handleRequest_no_node: "Req_NodeId req = '''' \<Longrightarrow> fst (snd (handleRequest env con req)) = []"
  by (simp add: handleRequest_def)

text \<open>Claim C3. A pass of the handler puts nothing on the stream for a cluster request when the
  cluster watch is set, for a listener request when the listener watch is set, and for a route
  or endpoint request that names as many resources as the non-empty watched list. Hence a
  request that was just handled without closing the stream and is repeated unchanged puts
  nothing on the stream, for cluster and listener requests always and for route and endpoint
  requests when they name at least one resource.\<close>

theorem handleRequest_ack_sends_nothing:
  "(CDSWatch con \<and> Req_TypeUrl req = ClusterType \<longrightarrow>
      fst (snd (handleRequest env con req)) = [])
   \<and> (LDSWatch con \<and> Req_TypeUrl req = ListenerType \<longrightarrow>
      fst (snd (handleRequest env con req)) = [])
   \<and> (Routes con \<noteq> [] \<and> Req_TypeUrl req = RouteType
        \<and> length (Req_ResourceNames req) = length (Routes con) \<longrightarrow>
      fst (snd (handleRequest env con req)) = [])
   \<and> (Clusters con \<noteq> [] \<and> Req_TypeUrl req = EndpointType
        \<and> length (Req_ResourceNames req) = length (Clusters con) \<longrightarrow>
      fst (snd (handleRequest env con req)) = [])
   \<and> (\<forall>con0 sent0.
        handleRequest env con0 req = (con, sent0, Continue)
        \<and> (Req_TypeUrl req = ClusterType \<or> Req_TypeUrl req = ListenerType
           \<or> ((Req_TypeUrl req = RouteType \<or> Req_TypeUrl req = EndpointType)
               \<and> Req_ResourceNames req \<noteq> [])) \<longrightarrow>
        fst (snd (handleRequest env con req)) = [])"
proof -
  have second: "fst (snd (handleRequest env con req)) = []"
    if first: "handleRequest env con0 req = (con, sent0, Continue)"
      and kind: "Req_TypeUrl req = ClusterType \<or> Req_TypeUrl req = ListenerType
           \<or> ((Req_TypeUrl req = RouteType \<or> Req_TypeUrl req = EndpointType)
               \<and> Req_ResourceNames req \<noteq> [])"
    for con0 sent0
  proof (cases "Req_NodeId req = ''''")
    case True
    then show ?thesis by (rule handleRequest_no_node)
  next
    case False
    from kind consider
        (cds) "Req_TypeUrl req = ClusterType"
      | (lds) "Req_TypeUrl req = ListenerType"
      | (rds) "Req_TypeUrl req = RouteType" "Req_ResourceNames req \<noteq> []"
      | (eds) "Req_TypeUrl req = EndpointType" "Req_ResourceNames req \<noteq> []"
      by blast
    then show ?thesis
    proof cases
      case cds
      then show ?thesis
        using handleRequest_then_CDS [OF first cds False] handleRequest_ack_CDS by blast
    next
      case lds
      then show ?thesis
        using handleRequest_then_LDS [OF first lds False] handleRequest_ack_LDS by blast
    next
      case rds
      then show ?thesis
        using handleRequest_then_RDS [OF first rds(1) False rds(2)] handleRequest_ack_RDS by blast
    next
      case eds
      then show ?thesis
        using handleRequest_then_EDS [OF first eds(1) False eds(2)] handleRequest_ack_EDS by blast
    qed
  qed
  show ?thesis
    using handleRequest_ack_CDS handleRequest_ack_LDS handleRequest_ack_RDS handleRequest_ack_EDS
      second by blast
qed

theorem handleRequest_ack_sends_nothing_witness:
  "(\<exists>con. handleRequest demoEnv newConnection (routeRequest [''80'', ''9080''])
        = (con,
           [\<lparr>Resp_TypeUrl = RouteType, Resp_VersionInfo = ''v'', Resp_Nonce = ''n'',
             Resp_Resources = [''80'', ''9080'']\<rparr>],
           Continue)
      \<and> Routes con = [''80'', ''9080'']
      \<and> fst (snd (handleRequest demoEnv con (routeRequest [''80'', ''9080'']))) = [])"
proof -
  obtain con where first: "handleRequest demoEnv newConnection (routeRequest [''80'', ''9080''])
        = (con,
           [\<lparr>Resp_TypeUrl = RouteType, Resp_VersionInfo = ''v'', Resp_Nonce = ''n'',
             Resp_Resources = [''80'', ''9080'']\<rparr>],
           Continue)" and routes: "Routes con = [''80'', ''9080'']"
    by (simp add: handleRequest_def demoEnv_def newConnection_def routeRequest_def pushRoute_def
        afterPush_def Let_def ClusterType_def ListenerType_def RouteType_def)
  have kind: "Req_TypeUrl (routeRequest [''80'', ''9080'']) = ClusterType
      \<or> Req_TypeUrl (routeRequest [''80'', ''9080'']) = ListenerType
      \<or> ((Req_TypeUrl (routeRequest [''80'', ''9080'']) = RouteType
           \<or> Req_TypeUrl (routeRequest [''80'', ''9080'']) = EndpointType)
          \<and> Req_ResourceNames (routeRequest [''80'', ''9080'']) \<noteq> [])"
    by (simp add: routeRequest_def)
  have "fst (snd (handleRequest demoEnv con (routeRequest [''80'', ''9080'']))) = []"
    using handleRequest_ack_sends_nothing [of con "routeRequest [''80'', ''9080'']" demoEnv]
      first kind by blast
  then show ?thesis using first routes by blast
qed

lemma pushRoute_watches:
  "pushRoute env con = (con', sent, err) \<Longrightarrow>
   Routes con' = Routes con \<and> Clusters con' = Clusters con
   \<and> CDSWatch con' = CDSWatch con \<and> LDSWatch con' = LDSWatch con"
  by (auto simp: pushRoute_def Let_def split: option.splits)

text \<open>A push pass leaves the watches as they are, so the acknowledgement test is not affected by
  pushes between two requests.\<close>

lemma handlePush_watches:
  "handlePush env con = (con', sent, out) \<Longrightarrow>
   Routes con' = Routes con \<and> Clusters con' = Clusters con
   \<and> CDSWatch con' = CDSWatch con \<and> LDSWatch con' = LDSWatch con"
  by (auto simp: handlePush_def Let_def split: option.splits prod.splits if_splits
      dest: pushRoute_watches)

text \<open>A route request without resource names on a connection that watches no routes is answered
  every time.\<close>

lemma handleRequest_empty_names_resends:
  "\<exists>con r. handleRequest demoEnv newConnection (routeRequest []) = (con, [r], Continue)
     \<and> handleRequest demoEnv con (routeRequest []) = (con, [r], Continue)"
  by (simp add: handleRequest_def demoEnv_def newConnection_def routeRequest_def pushRoute_def
      afterPush_def Let_def ClusterType_def ListenerType_def RouteType_def)

end
